theory Spec2Isabelle
  imports Complex_Main
begin

section \<open>The numpy layer\<close>

text \<open>
  Array elements are IEEE values: a finite number, written as the real it denotes, or one
  of \<open>+inf\<close>, \<open>-inf\<close>, \<open>nan\<close>. numpy does not raise on a division by zero or on an
  overflow: it stores \<open>inf\<close> or \<open>nan\<close>. Signed zeros are not distinguished. The
  operations \<open>np_add\<close>, \<open>np_mul\<close>, \<open>np_div\<close> give the IEEE result before rounding; a
  float format rounds it (next section).
\<close>

datatype npfloat = Fin real | PInf | NInf | NaN

datatype py_error =
  UnboundLocalError | ValueError | IndexError | KeyError | OverflowError | ZeroDivisionError

text \<open>
  An exception ends the evaluation: \<open>bind_err r f\<close> passes an error on and hands a
  value to the rest of the computation.
\<close>

definition bind_err :: "'e + 'a \<Rightarrow> ('a \<Rightarrow> 'e + 'b) \<Rightarrow> 'e + 'b" where
  "bind_err r f = (case r of Inl e \<Rightarrow> Inl e | Inr x \<Rightarrow> f x)"

fun np_le :: "npfloat \<Rightarrow> npfloat \<Rightarrow> bool" where
  "np_le NaN _ = False"
| "np_le _ NaN = False"
| "np_le NInf _ = True"
| "np_le _ PInf = True"
| "np_le (Fin x) (Fin y) = (x \<le> y)"
| "np_le _ _ = False"

fun np_mul :: "npfloat \<Rightarrow> npfloat \<Rightarrow> npfloat" where
  "np_mul NaN _ = NaN"
| "np_mul _ NaN = NaN"
| "np_mul (Fin x) (Fin y) = Fin (x * y)"
| "np_mul (Fin x) PInf = (if x = 0 then NaN else if 0 < x then PInf else NInf)"
| "np_mul (Fin x) NInf = (if x = 0 then NaN else if 0 < x then NInf else PInf)"
| "np_mul PInf (Fin y) = (if y = 0 then NaN else if 0 < y then PInf else NInf)"
| "np_mul NInf (Fin y) = (if y = 0 then NaN else if 0 < y then NInf else PInf)"
| "np_mul PInf PInf = PInf"
| "np_mul NInf NInf = PInf"
| "np_mul PInf NInf = NInf"
| "np_mul NInf PInf = NInf"

fun np_add :: "npfloat \<Rightarrow> npfloat \<Rightarrow> npfloat" where
  "np_add NaN _ = NaN"
| "np_add _ NaN = NaN"
| "np_add (Fin x) (Fin y) = Fin (x + y)"
| "np_add PInf NInf = NaN"
| "np_add NInf PInf = NaN"
| "np_add PInf _ = PInf"
| "np_add _ PInf = PInf"
| "np_add NInf _ = NInf"
| "np_add _ NInf = NInf"

fun np_div :: "npfloat \<Rightarrow> npfloat \<Rightarrow> npfloat" where
  "np_div NaN _ = NaN"
| "np_div _ NaN = NaN"
| "np_div (Fin x) (Fin y) =
     (if y = 0 then (if x = 0 then NaN else if 0 < x then PInf else NInf) else Fin (x / y))"
| "np_div (Fin x) _ = Fin 0"
| "np_div PInf (Fin y) = (if 0 \<le> y then PInf else NInf)"
| "np_div NInf (Fin y) = (if 0 \<le> y then NInf else PInf)"
| "np_div _ _ = NaN"

fun np_neg :: "npfloat \<Rightarrow> npfloat" where
  "np_neg (Fin x) = Fin (- x)"
| "np_neg PInf = NInf"
| "np_neg NInf = PInf"
| "np_neg NaN = NaN"

text \<open>
  \<open>np.argmax\<close> along one column, as numpy's loop does it: the first element is the
  running maximum \<open>mp\<close> at index \<open>mi\<close>; an element replaces it when
  \<open>not (x <= mp)\<close>, which also holds for a \<open>nan\<close>; a \<open>nan\<close> maximum ends the scan.
\<close>

fun argmax_from :: "npfloat \<Rightarrow> nat \<Rightarrow> nat \<Rightarrow> npfloat list \<Rightarrow> nat" where
  "argmax_from mp mi i [] = mi"
| "argmax_from mp mi i (x # xs) =
     (if mp = NaN then mi
      else if \<not> np_le x mp then argmax_from x i (Suc i) xs
      else argmax_from mp mi (Suc i) xs)"

text \<open>
  A score cube is held as its list of species rows (axis 0), every row the flattened
  bins of that species, all rows of one length. \<open>np.argmax(cube, axis=0)\<close> takes the
  arg-max of every column; with no row at all (an axis of length 0) numpy raises
  ValueError.
\<close>

type_synonym cube = "npfloat list list"

definition argmax_axis0 :: "cube \<Rightarrow> py_error + nat list" where
  "argmax_axis0 rows =
     (case rows of
        [] \<Rightarrow> Inl ValueError
      | r # rs \<Rightarrow> Inr (map (\<lambda>j. argmax_from (r ! j) 0 1 (map (\<lambda>row. row ! j) rs))
                        [0 ..< length r]))"

text \<open>
  Boolean-mask assignment on flat arrays: \<open>target[mask] = source[mask]\<close> and
  \<open>target[mask] = v\<close>. A mask whose length differs from the indexed array raises
  IndexError.
\<close>

definition mask_assign :: "bool list \<Rightarrow> int list \<Rightarrow> int list \<Rightarrow> py_error + int list" where
  "mask_assign msk target source =
     (if length msk \<noteq> length target \<or> length msk \<noteq> length source then Inl IndexError
      else Inr (map (\<lambda>i. if msk ! i then source ! i else target ! i) [0 ..< length target]))"

definition mask_fill :: "bool list \<Rightarrow> int list \<Rightarrow> int \<Rightarrow> py_error + int list" where
  "mask_fill msk target v =
     (if length msk \<noteq> length target then Inl IndexError
      else Inr (map (\<lambda>i. if msk ! i then v else target ! i) [0 ..< length target]))"

section \<open>Float formats\<close>

text \<open>
  A float format is given by its rounding function: the value stored for an exact real
  result, which is \<open>+inf\<close> or \<open>-inf\<close> on overflow and 0 on underflow. The operations
  below take the format as a parameter. What is used of it holds of round-to-nearest in
  every IEEE binary format: a rounded value is not \<open>nan\<close>, rounding is monotone, and 0,
  1, 2 and 1/2 are stored exactly.
\<close>

type_synonym rounding = "real \<Rightarrow> npfloat"

definition ieee_rounding :: "rounding \<Rightarrow> bool" where
  "ieee_rounding rnd \<longleftrightarrow>
     (\<forall>x. rnd x \<noteq> NaN) \<and>
     (\<forall>x y. x \<le> y \<longrightarrow> np_le (rnd x) (rnd y)) \<and>
     rnd 0 = Fin 0 \<and> rnd 1 = Fin 1 \<and> rnd 2 = Fin 2 \<and> rnd (1 / 2) = Fin (1 / 2)"

fun round_val :: "rounding \<Rightarrow> npfloat \<Rightarrow> npfloat" where
  "round_val rnd (Fin x) = rnd x"
| "round_val rnd v = v"

text \<open>The element-wise numpy operations \<open>x - y\<close>, \<open>x + y\<close>, \<open>x / y\<close> in a format.\<close>

definition fl_sub :: "rounding \<Rightarrow> npfloat \<Rightarrow> npfloat \<Rightarrow> npfloat" where
  "fl_sub rnd x y = round_val rnd (np_add x (np_neg y))"

definition fl_add :: "rounding \<Rightarrow> npfloat \<Rightarrow> npfloat \<Rightarrow> npfloat" where
  "fl_add rnd x y = round_val rnd (np_add x y)"

definition fl_div :: "rounding \<Rightarrow> npfloat \<Rightarrow> npfloat \<Rightarrow> npfloat" where
  "fl_div rnd x y = round_val rnd (np_div x y)"

text \<open>
  The power \<open>x ** y\<close> of a format is a parameter as well (the C library's \<open>pow\<close>, which
  need not round correctly; numpy squares by a product). What is used of it are the
  special cases that C99 and IEEE 754 fix: \<open>pow(x, 0) = 1\<close> and \<open>pow(1, y) = 1\<close> for every
  operand, \<open>pow(+0, y)\<close> is 0 for \<open>y > 0\<close> and \<open>+inf\<close> for \<open>y < 0\<close>, \<open>pow(+inf, y)\<close> is
  \<open>+inf\<close> for \<open>y > 0\<close> and 0 for \<open>y < 0\<close>, a power of a positive number and a square are
  neither negative nor \<open>nan\<close>, the square of \<open>-inf\<close> is \<open>+inf\<close>, and a square does not
  depend on the sign of its operand.
\<close>

definition ieee_pow :: "(npfloat \<Rightarrow> npfloat \<Rightarrow> npfloat) \<Rightarrow> bool" where
  "ieee_pow pw \<longleftrightarrow>
     (\<forall>x. pw x (Fin 0) = Fin 1) \<and>
     (\<forall>y. pw (Fin 1) y = Fin 1) \<and>
     (\<forall>y. 0 < y \<longrightarrow> pw (Fin 0) (Fin y) = Fin 0) \<and>
     (\<forall>y. y < 0 \<longrightarrow> pw (Fin 0) (Fin y) = PInf) \<and>
     (\<forall>x y. 0 < x \<longrightarrow> np_le (Fin 0) (pw (Fin x) (Fin y))) \<and>
     (\<forall>y. 0 < y \<longrightarrow> pw PInf (Fin y) = PInf) \<and>
     (\<forall>y. y < 0 \<longrightarrow> pw PInf (Fin y) = Fin 0) \<and>
     (\<forall>x. np_le (Fin 0) (pw (Fin x) (Fin 2))) \<and>
     pw NInf (Fin 2) = PInf \<and>
     (\<forall>x. pw (Fin (- x)) (Fin 2) = pw (Fin x) (Fin 2))"

subsection \<open>The IEEE binary formats\<close>

text \<open>
  Round-to-nearest, ties to even, in the binary format with \<open>p\<close> significant bits and
  exponents from \<open>emin\<close> to \<open>emax\<close>. A number \<open>x\<close> with
  \<open>2 ** k <= |x| < 2 ** (k + 1)\<close> is rounded to a multiple of \<open>2 ** (k - (p - 1))\<close>, its
  last place; below \<open>2 ** emin\<close> (the subnormal numbers) the last place is that of
  \<open>2 ** emin\<close>. A result of size \<open>2 ** (emax + 1)\<close> or more is an overflow. binary32 is
  numpy's \<open>float32\<close>, binary64 is numpy's \<open>float64\<close> and Python's \<open>float\<close>.
\<close>

definition round_half_even :: "real \<Rightarrow> int" where
  "round_half_even t =
     (if t - of_int \<lfloor>t\<rfloor> < 1 / 2 then \<lfloor>t\<rfloor>
      else if 1 / 2 < t - of_int \<lfloor>t\<rfloor> then \<lfloor>t\<rfloor> + 1
      else if even \<lfloor>t\<rfloor> then \<lfloor>t\<rfloor> else \<lfloor>t\<rfloor> + 1)"

definition round_at :: "int \<Rightarrow> real \<Rightarrow> real" where
  "round_at e x = of_int (round_half_even (x / 2 powi e)) * 2 powi e"

definition last_place :: "nat \<Rightarrow> int \<Rightarrow> real \<Rightarrow> int" where
  "last_place p emin x = max \<lfloor>log 2 \<bar>x\<bar>\<rfloor> emin - (int p - 1)"

definition round_to_place :: "nat \<Rightarrow> int \<Rightarrow> real \<Rightarrow> real" where
  "round_to_place p emin x = (if x = 0 then 0 else round_at (last_place p emin x) x)"

definition binary_round :: "nat \<Rightarrow> int \<Rightarrow> int \<Rightarrow> rounding" where
  "binary_round p emin emax x =
     (let r = round_to_place p emin x
      in if 2 powi (emax + 1) \<le> r then PInf
         else if r \<le> - (2 powi (emax + 1)) then NInf
         else Fin r)"

definition binary32 :: rounding where
  "binary32 = binary_round 24 (- 126) 127"

definition binary64 :: rounding where
  "binary64 = binary_round 53 (- 1022) 1023"

subsection \<open>The power\<close>

text \<open>
  C99's \<open>pow\<close> before rounding: on finite operands, with an infinite exponent, and the
  whole table; \<open>pow_with rnd\<close> is the correctly rounded power of the format \<open>rnd\<close>.
\<close>

definition pow_real :: "real \<Rightarrow> real \<Rightarrow> npfloat" where
  "pow_real x y =
     (if 0 < x then Fin (x powr y)
      else if x = 0 then (if 0 < y then Fin 0 else PInf)
      else if y = of_int \<lfloor>y\<rfloor>
        then Fin (if even \<lfloor>y\<rfloor> then (- x) powr y else - ((- x) powr y))
      else NaN)"

definition pow_inf_exp :: "real \<Rightarrow> bool \<Rightarrow> npfloat" where
  "pow_inf_exp x up =
     (if \<bar>x\<bar> = 1 then Fin 1
      else if (\<bar>x\<bar> < 1) = up then Fin 0 else PInf)"

definition c99_pow :: "npfloat \<Rightarrow> npfloat \<Rightarrow> npfloat" where
  "c99_pow x y =
     (if y = Fin 0 then Fin 1
      else if x = Fin 1 then Fin 1
      else case (x, y) of
        (NaN, _) \<Rightarrow> NaN
      | (_, NaN) \<Rightarrow> NaN
      | (Fin u, Fin v) \<Rightarrow> pow_real u v
      | (Fin u, PInf) \<Rightarrow> pow_inf_exp u True
      | (Fin u, NInf) \<Rightarrow> pow_inf_exp u False
      | (PInf, Fin v) \<Rightarrow> (if 0 < v then PInf else Fin 0)
      | (PInf, PInf) \<Rightarrow> PInf
      | (PInf, NInf) \<Rightarrow> Fin 0
      | (NInf, Fin v) \<Rightarrow>
          (if 0 < v then (if v = of_int \<lfloor>v\<rfloor> \<and> odd \<lfloor>v\<rfloor> then NInf else PInf) else Fin 0)
      | (NInf, PInf) \<Rightarrow> PInf
      | (NInf, NInf) \<Rightarrow> Fin 0)"

definition pow_with :: "rounding \<Rightarrow> npfloat \<Rightarrow> npfloat \<Rightarrow> npfloat" where
  "pow_with rnd x y = round_val rnd (c99_pow x y)"

section \<open>The scoring primitive \<open>hid_beta\<close>\<close>

text \<open>
  \<^verbatim>\<open>
  def hid_beta(x_arr, a, b, m):
      """Beta function calculator"""
      return 1.0/(1.0 + (((x_arr - m)/a)**2)**b)
  \<close>
  \<open>x_arr\<close> is a numpy array, so every operation of the expression is numpy's and works
  element by element in the format \<open>rnd\<close> of its result, with the power \<open>pw\<close> of that
  format; \<open>a\<close>, \<open>b\<close> and \<open>m\<close> are the finite values of the parameters in that format.
  No operation raises: a division by zero and an overflow store \<open>inf\<close> or \<open>nan\<close>. The zero
  that reaches \<open>** b\<close> is a square, hence \<open>+0\<close>. A numpy scalar in the place of the
  array is an array of one element.
\<close>

definition hid_beta_elem ::
  "rounding \<Rightarrow> (npfloat \<Rightarrow> npfloat \<Rightarrow> npfloat) \<Rightarrow> real \<Rightarrow> real \<Rightarrow> real \<Rightarrow> npfloat \<Rightarrow> npfloat" where
  "hid_beta_elem rnd pw a b m x =
     fl_div rnd (Fin 1)
       (fl_add rnd (Fin 1) (pw (pw (fl_div rnd (fl_sub rnd x (Fin m)) (Fin a)) (Fin 2)) (Fin b)))"

definition hid_beta ::
  "rounding \<Rightarrow> (npfloat \<Rightarrow> npfloat \<Rightarrow> npfloat) \<Rightarrow> npfloat list \<Rightarrow> real \<Rightarrow> real \<Rightarrow> real
     \<Rightarrow> npfloat list" where
  "hid_beta rnd pw x_arr a b m = map (hid_beta_elem rnd pw a b m) x_arr"


text \<open>
  With Python floats for \<open>x_arr\<close>, \<open>a\<close>, \<open>b\<close> and \<open>m\<close> the operations of the same
  expression are Python's, in binary64. \<open>-\<close> and \<open>+\<close> are the IEEE operations; \<open>/\<close>
  raises ZeroDivisionError on a zero divisor. \<open>**\<close> is \<open>float_pow\<close> of CPython: the
  power with exponent 0 is 1.0; a \<open>nan\<close> operand gives \<open>nan\<close>, but \<open>1.0 ** nan\<close> is 1.0;
  infinite operands follow the C99 table; \<open>0.0\<close> to a negative power raises
  ZeroDivisionError; a negative base with a fractional exponent gives a complex number;
  the power of a base of size 1 is 1.0 or -1.0; every other power is the C library's
  \<open>pow\<close> of the absolute value of the base, negated for a negative base with an odd
  exponent, and raises OverflowError where the result overflows (an underflow is the
  result 0.0). A complex number is not modelled further: the result is then a complex
  number.
\<close>

datatype pynum = PyFloat npfloat | PyComplex

definition py_div :: "rounding \<Rightarrow> npfloat \<Rightarrow> npfloat \<Rightarrow> py_error + npfloat" where
  "py_div rnd x y = (if y = Fin 0 then Inl ZeroDivisionError else Inr (fl_div rnd x y))"

definition py_pow :: "(npfloat \<Rightarrow> npfloat \<Rightarrow> npfloat) \<Rightarrow> npfloat \<Rightarrow> npfloat \<Rightarrow> py_error + pynum" where
  "py_pow pw x y =
     (if y = Fin 0 then Inr (PyFloat (Fin 1))
      else if x = NaN then Inr (PyFloat NaN)
      else if y = NaN then Inr (PyFloat (if x = Fin 1 then Fin 1 else NaN))
      else case (x, y) of
        (Fin u, Fin v) \<Rightarrow>
          if u = 0 then (if v < 0 then Inl ZeroDivisionError else Inr (PyFloat (Fin 0)))
          else if u < 0 \<and> v \<noteq> of_int \<lfloor>v\<rfloor> then Inr PyComplex
          else if \<bar>u\<bar> = 1 then Inr (PyFloat (Fin (if u < 0 \<and> odd \<lfloor>v\<rfloor> then - 1 else 1)))
          else (case pw (Fin \<bar>u\<bar>) (Fin v) of
                  Fin r \<Rightarrow> Inr (PyFloat (Fin (if u < 0 \<and> odd \<lfloor>v\<rfloor> then - r else r)))
                | NaN \<Rightarrow> Inl ValueError
                | _ \<Rightarrow> Inl OverflowError)
      | _ \<Rightarrow> Inr (PyFloat (c99_pow x y)))"

definition hid_beta_float ::
  "rounding \<Rightarrow> (npfloat \<Rightarrow> npfloat \<Rightarrow> npfloat) \<Rightarrow> npfloat \<Rightarrow> real \<Rightarrow> real \<Rightarrow> real
     \<Rightarrow> py_error + pynum" where
  "hid_beta_float rnd pw x a b m =
     bind_err (py_div rnd (fl_sub rnd x (Fin m)) (Fin a)) (\<lambda>q.
     bind_err (py_pow pw q (Fin 2)) (\<lambda>s.
     case s of
       PyComplex \<Rightarrow> Inr PyComplex
     | PyFloat s \<Rightarrow>
         bind_err (py_pow pw s (Fin b)) (\<lambda>p.
         case p of
           PyComplex \<Rightarrow> Inr PyComplex
         | PyFloat p \<Rightarrow>
             bind_err (py_div rnd (Fin 1) (fl_add rnd (Fin 1) p)) (\<lambda>r.
             Inr (PyFloat r)))))"

section \<open>The winter classifier \<open>run_winter\<close>\<close>

text \<open>
  \<open>melting_layer\<close> and \<open>csu_fhc_winter\<close> are imported from modules that are not part of
  the source at hand; their results are parameters of the model. \<open>melting_layer\<close>
  returns \<open>(meltlev, melt_z, fh, scores_ML)\<close>: the regime mask and the melt
  categorization are integer arrays that live in a store, so that the model shows which
  array object \<open>run_winter\<close> writes to; \<open>melt_z\<close> is not used by \<open>run_winter\<close>. All arrays
  are flattened (bins in one fixed order); the blend works bin by bin. Printing under
  \<open>verbose\<close> has no effect on the result and is left out.
\<close>

type_synonym addr = nat
type_synonym store = "addr \<Rightarrow> int list"

record 'sm melt_out =
  meltlev :: addr
  fh :: addr
  scores_ML :: 'sm

record 'sm scores_dict =
  ML_scores :: 'sm
  warm_scores :: cube
  cold_scores :: cube

record hca_dict =
  ML_hca :: addr
  warm_hca :: "int list"
  cold_hca :: "int list"

datatype 'sm winter_result =
    Hca "int list"
  | Hca_Scores "int list" "'sm scores_dict" hca_dict

fun winter_hca_of :: "'sm winter_result \<Rightarrow> int list" where
  "winter_hca_of (Hca w) = w"
| "winter_hca_of (Hca_Scores w sc h) = w"

text \<open>
  The warm-regime categories of \<open>run_winter\<close>:
  \<^verbatim>\<open>
  fhwarm = np.argmax(scores_warm, axis=0) + 1
  fhwarm[fhwarm == 1] = 6
  fhwarm[fhwarm == 2] = 7
  \<close>
\<close>

definition warm_remap :: "nat list \<Rightarrow> int list" where
  "warm_remap am =
     (let fhwarm = map (\<lambda>k. int k + 1) am;
          fhwarm = map (\<lambda>v. if v = 1 then 6 else v) fhwarm;
          fhwarm = map (\<lambda>v. if v = 2 then 7 else v) fhwarm
      in fhwarm)"

text \<open>
  The blend of \<open>run_winter\<close>, in the order of the source:
  \<^verbatim>\<open>
  winter_hca = np.zeros_like(fh) - 1
  winter_hca[meltlev == 0] = fhwarm[meltlev == 0]
  winter_hca[meltlev == 2] = fhcold[meltlev == 2]
  if scan_type == 'grid':
      winter_hca[meltlev==1] = fhcold[meltlev==1]
  whmelt = np.where(fh == 5)
  winter_hca[whmelt] = 5
  winter_hca[fh == -1] = -1
  winter_hca[fh == 0] = -1
  \<close>
\<close>

definition blend ::
  "int list \<Rightarrow> int list \<Rightarrow> int list \<Rightarrow> int list \<Rightarrow> string \<Rightarrow> py_error + int list" where
  "blend fh_arr meltlev_arr fhwarm fhcold scan_type =
    (let winter_hca = map (\<lambda>_. - 1) fh_arr in
     bind_err (mask_assign (map (\<lambda>v. v = 0) meltlev_arr) winter_hca fhwarm) (\<lambda>winter_hca.
     bind_err (mask_assign (map (\<lambda>v. v = 2) meltlev_arr) winter_hca fhcold) (\<lambda>winter_hca.
     bind_err (if scan_type = ''grid''
               then mask_assign (map (\<lambda>v. v = 1) meltlev_arr) winter_hca fhcold
               else Inr winter_hca) (\<lambda>winter_hca.
     bind_err (mask_fill (map (\<lambda>v. v = 5) fh_arr) winter_hca 5) (\<lambda>winter_hca.
     bind_err (mask_fill (map (\<lambda>v. v = - 1) fh_arr) winter_hca (- 1)) (\<lambda>winter_hca.
     mask_fill (map (\<lambda>v. v = 0) fh_arr) winter_hca (- 1)))))))"

text \<open>
  \<^verbatim>\<open>
  fhwarm = ...
  fhcold = np.argmax(scores_cold, axis=0) + 1
  whgd = np.where(fh == 2)
  fh[whgd] = 5
  winter_hca = ...
  if return_scores:
      scores = {'ML': scores_ML, 'warm': scores_warm, 'cold': scores_cold}
      hca = {'ML': fh, 'warm': fhwarm, 'cold': fhcold}
      return winter_hca, scores, hca
  else:
      return winter_hca
  \<close>
  The function returns its outcome together with the store it leaves behind: the
  assignment \<open>fh[whgd] = 5\<close> writes into the array that \<open>melting_layer\<close> returned, and
  \<open>hca['ML']\<close> is a reference to that same array. The regime mask is read from the
  store after that write.
\<close>

definition run_winter ::
  "store \<Rightarrow> 'sm melt_out \<Rightarrow> cube \<Rightarrow> cube \<Rightarrow> string \<Rightarrow> bool
     \<Rightarrow> (py_error + 'sm winter_result) \<times> store" where
  "run_winter st ml scores_warm scores_cold scan_type return_scores =
     (case argmax_axis0 scores_warm of
        Inl e \<Rightarrow> (Inl e, st)
      | Inr am_warm \<Rightarrow>
         (let fhwarm = warm_remap am_warm in
          (case argmax_axis0 scores_cold of
             Inl e \<Rightarrow> (Inl e, st)
           | Inr am_cold \<Rightarrow>
              (let fhcold = map (\<lambda>k. int k + 1) am_cold;
                   st = st (fh ml := map (\<lambda>v. if v = 2 then 5 else v) (st (fh ml)))
               in (case blend (st (fh ml)) (st (meltlev ml)) fhwarm fhcold scan_type of
                     Inl e \<Rightarrow> (Inl e, st)
                   | Inr winter_hca \<Rightarrow>
                       if return_scores
                       then (Inr (Hca_Scores winter_hca
                                    \<lparr>ML_scores = scores_ML ml, warm_scores = scores_warm,
                                     cold_scores = scores_cold\<rparr>
                                    \<lparr>ML_hca = fh ml, warm_hca = fhwarm,
                                     cold_hca = fhcold\<rparr>), st)
                       else (Inr (Hca winter_hca), st))))))"

text \<open>
  The inputs on which the blend is defined bin by bin: both score cubes have a species
  row, and the cubes, the regime mask and the melt categorization cover the same bins.
\<close>

definition wf_winter :: "store \<Rightarrow> 'sm melt_out \<Rightarrow> cube \<Rightarrow> cube \<Rightarrow> bool" where
  "wf_winter st ml scores_warm scores_cold =
     (scores_warm \<noteq> [] \<and> scores_cold \<noteq> [] \<and>
      length (hd scores_warm) = length (st (fh ml)) \<and>
      length (hd scores_cold) = length (st (fh ml)) \<and>
      length (st (meltlev ml)) = length (st (fh ml)))"

text \<open>
  The blend as the spec words it (4.4, step 4), for one bin with adjusted melt category
  \<open>f\<close>, regime mask \<open>r\<close>, warm result \<open>w\<close> and cold result \<open>c\<close>: no-data wins over
  wet snow, wet snow over the regime assignment, and a bin that no rule assigns keeps
  the initial -1.
\<close>

definition blend_spec :: "int \<Rightarrow> int \<Rightarrow> int \<Rightarrow> int \<Rightarrow> string \<Rightarrow> int" where
  "blend_spec f r w c scan_type =
     (if f = 0 \<or> f = - 1 then - 1
      else if f = 5 then 5
      else if r = 0 then w
      else if r = 2 then c
      else if r = 1 \<and> scan_type = ''grid'' then c
      else - 1)"

section \<open>The summer classifier \<open>csu_fhc_summer\<close>\<close>

text \<open>
  The variable keys of the dictionaries \<open>fhc_vars\<close>, \<open>radar_data\<close>, \<open>weights\<close> and
  \<open>sets\<close>. A weight table has an entry for every key (the docstring: "Dict that contains
  relative weights for every variable"), so it is a total function.
\<close>

datatype key = DZ | DR | KD | RH | LD | T

text \<open>
  A measurand is a numpy array or a scalar: its shape (empty for a scalar) and its
  elements in row-major order.
\<close>

record measurand =
  shape :: "nat list"
  data :: "npfloat list"

text \<open>
  The membership parameters of one variable, \<open>{'a': [...], 'b': [...], 'm': [...]}\<close>,
  and the dictionary that \<open>get_mbf_sets_summer\<close> returns.
\<close>

record mbf =
  mbf_a :: "real list"
  mbf_b :: "real list"
  mbf_m :: "real list"

record mbf_sets =
  Zh_set :: mbf
  Zdr_set :: mbf
  Kdp_set :: mbf
  LDR_set :: mbf
  rho_set :: mbf
  T_set :: mbf

text \<open>
  Three functions are imported from modules that are not part of the source at hand and
  are parameters of the model: the membership function provider
  \<open>get_mbf_sets_summer(use_temp, plot_flag, n_types, temp_factor, band, verbose)\<close>, the
  compiled beta function \<open>hid_beta_f(sz, x, a, b, m)\<close> and the trapezoid function
  \<open>get_hid_traps(c, x)\<close>. They are taken to return (a value of their result type) on
  every input.
\<close>

record externals =
  get_mbf_sets_summer :: "bool \<Rightarrow> bool \<Rightarrow> int \<Rightarrow> real \<Rightarrow> string \<Rightarrow> bool \<Rightarrow> mbf_sets"
  hid_beta_f :: "nat \<Rightarrow> npfloat list \<Rightarrow> real \<Rightarrow> real \<Rightarrow> real \<Rightarrow> npfloat list"
  get_hid_traps :: "nat \<Rightarrow> npfloat list \<Rightarrow> npfloat list"

text \<open>
  The keyword arguments of \<open>csu_fhc_summer\<close>; \<open>n_types\<close> is a Python integer, of any
  sign and size.
\<close>

record summer_args =
  use_temp_arg :: bool
  weights_arg :: "key \<Rightarrow> real"
  method_arg :: string
  dz_arg :: "measurand option"
  zdr_arg :: "measurand option"
  ldr_arg :: "measurand option"
  kdp_arg :: "measurand option"
  rho_arg :: "measurand option"
  T_arg :: "measurand option"
  verbose_arg :: bool
  plot_flag_arg :: bool
  use_trap_arg :: bool
  n_types_arg :: int
  temp_factor_arg :: real
  band_arg :: string
  return_scores_arg :: bool

definition DEFAULT_WEIGHTS :: "key \<Rightarrow> real" where
  "DEFAULT_WEIGHTS k =
     (case k of DZ \<Rightarrow> 1.5 | DR \<Rightarrow> 0.8 | KD \<Rightarrow> 1.0 | RH \<Rightarrow> 0.8 | LD \<Rightarrow> 0.5 | T \<Rightarrow> 0.4)"

text \<open>
  The value of the local variable \<open>test\<close>: a one-dimensional array, or the
  zero-dimensional number that \<open>np.sum\<close> returns for an empty list of terms.
\<close>

datatype ndarr = Scalar npfloat | Vec "npfloat list"

text \<open>
  What \<open>csu_fhc_summer\<close> returns when it does not return None: the category array
  (shape and flattened entries) or, under \<open>return_scores\<close>, the score cube (shape and
  rows along axis 0).
\<close>

datatype summer_value =
    Hid "nat list" "nat list"
  | Scores "nat list" cube

subsection \<open>Python and numpy operations used by the classifier\<close>

text \<open>
  The classifier combines scores by \<open>np_add\<close>, \<open>np_mul\<close> and \<open>np_div\<close> as they are,
  before rounding: the format of a score array is that of the arrays \<open>hid_beta_f\<close>
  returns, which the source at hand does not fix, and no statement below depends on the
  rounding of a score.
\<close>

text \<open>The substring test \<open>sub in s\<close> on strings.\<close>

fun str_in :: "string \<Rightarrow> string \<Rightarrow> bool" where
  "str_in sub [] = (sub = [])"
| "str_in sub (c # cs) = (take (length sub) (c # cs) = sub \<or> str_in sub cs)"

text \<open>Indexing \<open>xs[c]\<close> with a loop index: IndexError past the end.\<close>

definition idx :: "'a list \<Rightarrow> nat \<Rightarrow> py_error + 'a" where
  "idx xs c = (if c < length xs then Inr (xs ! c) else Inl IndexError)"

text \<open>A list comprehension or loop whose body may raise: the first error ends it.\<close>

fun collect :: "('k \<Rightarrow> py_error + 'x) \<Rightarrow> 'k list \<Rightarrow> py_error + 'x list" where
  "collect f [] = Inr []"
| "collect f (k # ks) =
     bind_err (f k) (\<lambda>x. bind_err (collect f ks) (\<lambda>xs. Inr (x # xs)))"

text \<open>
  \<open>np.sum(np.array(rows), axis=0)\<close> for a list of one-dimensional arrays: the empty
  list gives the number 0.0; rows of one length give their element-wise sum; rows of
  different lengths do not form an array (ValueError).
\<close>

definition np_sum_axis0 :: "npfloat list list \<Rightarrow> py_error + ndarr" where
  "np_sum_axis0 rows =
     (case rows of
        [] \<Rightarrow> Inr (Scalar (Fin 0))
      | r # rs \<Rightarrow>
          if \<forall>row \<in> set rs. length row = length r
          then Inr (Vec (map (\<lambda>j. foldl np_add (r ! j) (map (\<lambda>row. row ! j) rs))
                          [0 ..< length r]))
          else Inl ValueError)"

fun ndarr_div :: "ndarr \<Rightarrow> real \<Rightarrow> ndarr" where
  "ndarr_div (Scalar x) w = Scalar (np_div x (Fin w))"
| "ndarr_div (Vec xs) w = Vec (map (\<lambda>x. np_div x (Fin w)) xs)"

text \<open>
  The in-place product \<open>test *= ys\<close> with a one-dimensional array \<open>ys\<close>: a number is
  rebound to the product array; an array takes the product in place, where \<open>ys\<close> must
  have its length or length 1 (broadcast), else ValueError.
\<close>

fun imul :: "ndarr \<Rightarrow> npfloat list \<Rightarrow> py_error + ndarr" where
  "imul (Scalar x) ys = Inr (Vec (map (np_mul x) ys))"
| "imul (Vec xs) ys =
     (if length ys = length xs then Inr (Vec (map (\<lambda>(x, y). np_mul x y) (zip xs ys)))
      else if length ys = 1 then Inr (Vec (map (\<lambda>x. np_mul x (hd ys)) xs))
      else Inl ValueError)"

fun is_scalar :: "ndarr \<Rightarrow> bool" where
  "is_scalar (Scalar x) = True"
| "is_scalar (Vec xs) = False"

fun elems :: "ndarr \<Rightarrow> npfloat list" where
  "elems (Scalar x) = [x]"
| "elems (Vec xs) = xs"

text \<open>
  \<open>np.array(test_list)\<close>, as its flattened elements: the items must all be numbers, or
  all be arrays of one length; otherwise they do not form an array (ValueError).
\<close>

definition np_array :: "ndarr list \<Rightarrow> py_error + npfloat list" where
  "np_array test_list =
     (case test_list of
        [] \<Rightarrow> Inr []
      | t # ts \<Rightarrow>
          if \<forall>u \<in> set ts. is_scalar u = is_scalar t \<and> length (elems u) = length (elems t)
          then Inr (concat (map elems test_list))
          else Inl ValueError)"

text \<open>
  The shape \<open>np.concatenate([[n_types], shp]).astype(np.int32)\<close> that \<open>mu\<close> is reshaped
  to, on a 64-bit build. With dimensions in \<open>shp\<close> and \<open>n_types\<close> in the range of
  \<open>int64\<close> the array is an integer array, and \<open>astype(np.int32)\<close> keeps the low 32 bits
  of every entry (\<open>int32\<close>). With a scalar \<open>dz\<close> the shape \<open>()\<close> makes it a \<open>float64\<close>
  array, as does an \<open>n_types\<close> from \<open>2 ** 63\<close> on (\<open>uint64\<close> first); the conversion of a
  float to \<open>int32\<close> is the number itself inside the range of \<open>int32\<close>, and outside of it
  a value that \<open>reshape\<close> refuses (ValueError). An \<open>n_types\<close> outside of \<open>int64\<close> and
  \<open>uint64\<close> makes an object array, whose conversion raises OverflowError.
\<close>

definition int32 :: "int \<Rightarrow> int" where
  "int32 n = (n + 2 ^ 31) mod 2 ^ 32 - 2 ^ 31"

definition target_dims :: "int \<Rightarrow> nat list \<Rightarrow> py_error + int list" where
  "target_dims n_types shp =
     (if n_types < - (2 ^ 63) \<or> 2 ^ 64 \<le> n_types then Inl OverflowError
      else if shp = [] \<or> 2 ^ 63 \<le> n_types then
        (if - (2 ^ 31) \<le> n_types \<and> n_types < 2 ^ 31 then Inr [n_types] else Inl ValueError)
      else Inr (map int32 (n_types # map int shp)))"

text \<open>
  \<open>reshape\<close> to a shape with entries of any sign, for an array of \<open>sz\<close> elements: one
  entry may be -1 and is then inferred, when the size is a multiple of the product of
  the others; every other negative entry, a second -1 and a shape of another size are
  refused (ValueError).
\<close>

definition resolve_dims :: "nat \<Rightarrow> int list \<Rightarrow> py_error + nat list" where
  "resolve_dims sz dims =
     (if \<exists>d \<in> set dims. d < - 1 then Inl ValueError
      else if 1 < length (filter (\<lambda>d. d = - 1) dims) then Inl ValueError
      else if - 1 \<in> set dims then
        (let known = prod_list (map nat (filter (\<lambda>d. d \<noteq> - 1) dims))
         in if known = 0 \<or> sz mod known \<noteq> 0 then Inl ValueError
            else Inr (map (\<lambda>d. if d = - 1 then sz div known else nat d) dims))
      else if prod_list (map nat dims) = sz then Inr (map nat dims)
      else Inl ValueError)"

text \<open>The rows along axis 0 of the flat array \<open>flat\<close> in the shape \<open>dims\<close>.\<close>

definition reshape_rows :: "npfloat list \<Rightarrow> nat list \<Rightarrow> cube" where
  "reshape_rows flat dims =
     (case dims of
        [] \<Rightarrow> []
      | d # rest \<Rightarrow> map (\<lambda>c. take (prod_list rest) (drop (c * prod_list rest) flat)) [0 ..< d])"

subsection \<open>The private functions\<close>

text \<open>
  \<^verbatim>\<open>
  def _convert_mbf_sets(mbf_sets):
      sets = {}
      sets['DZ'] = mbf_sets['Zh_set']
      sets['DR'] = mbf_sets['Zdr_set']
      sets['KD'] = mbf_sets['Kdp_set']
      sets['LD'] = mbf_sets['LDR_set']
      sets['RH'] = mbf_sets['rho_set']
      sets['T'] = mbf_sets['T_set']
      return sets
  \<close>
  (An Isabelle name cannot begin with an underscore: the private functions are named
  without it.)
\<close>

definition convert_mbf_sets :: "mbf_sets \<Rightarrow> key \<Rightarrow> mbf" where
  "convert_mbf_sets mbf_sets k =
     (case k of
        DZ \<Rightarrow> Zh_set mbf_sets
      | DR \<Rightarrow> Zdr_set mbf_sets
      | KD \<Rightarrow> Kdp_set mbf_sets
      | LD \<Rightarrow> LDR_set mbf_sets
      | RH \<Rightarrow> rho_set mbf_sets
      | T \<Rightarrow> T_set mbf_sets)"

text \<open>
  \<^verbatim>\<open>
  def _get_pol_flag(fhc_vars):
      if fhc_vars['DR'] or fhc_vars['KD'] or fhc_vars['LD'] or fhc_vars['RH']:
          pol_flag = True
      else:
          pol_flag = False
      return pol_flag
  \<close>
\<close>

definition get_pol_flag :: "(key \<Rightarrow> nat) \<Rightarrow> bool" where
  "get_pol_flag fhc_vars =
     (if fhc_vars DR \<noteq> 0 \<or> fhc_vars KD \<noteq> 0 \<or> fhc_vars LD \<noteq> 0 \<or> fhc_vars RH \<noteq> 0
      then True else False)"

text \<open>
  \<^verbatim>\<open>
  def _populate_vars(dz, zdr, kdp, rho, ldr, T, verbose):
      varlist = [dz, zdr, kdp, rho, ldr, T]
      keylist = ['DZ', 'DR', 'KD', 'RH', 'LD', 'T']
      fhc_vars = {}
      radar_data = {}
      for i, key in enumerate(keylist):
          var = varlist[i]
          if var is not None:
              if key == 'DZ':
                  shp = np.shape(var)
                  sz = np.size(var)
              if np.ndim(var) > 1:
                  radar_data[key] = np.array(var).ravel().astype('float32')
              elif np.ndim(var) == 1:
                  radar_data[key] = np.array(var).astype('float32')
              else:
                  radar_data[key] = np.array([var]).astype('float32')
              fhc_vars[key] = 1
          else:
              fhc_vars[key] = 0
      return radar_data, fhc_vars, shp, sz
  \<close>
  All three branches on \<open>np.ndim\<close> store the flattened elements, converted to
  \<open>float32\<close>: every finite element is rounded to binary32 (to \<open>inf\<close> beyond its range).
  Without \<open>dz\<close> the names \<open>shp\<close> and \<open>sz\<close> are unbound at the \<open>return\<close>.
\<close>

definition populate_vars ::
  "measurand option \<Rightarrow> measurand option \<Rightarrow> measurand option \<Rightarrow>
   measurand option \<Rightarrow> measurand option \<Rightarrow> measurand option \<Rightarrow>
   py_error + ((key \<rightharpoonup> npfloat list) \<times> (key \<Rightarrow> nat) \<times> nat list \<times> nat)" where
  "populate_vars dz zdr kdp rho ldr Tv =
     (let varlist = [dz, zdr, kdp, rho, ldr, Tv];
          keylist = [DZ, DR, KD, RH, LD, T];
          var = (\<lambda>k. case map_of (zip keylist varlist) k of Some v \<Rightarrow> v | None \<Rightarrow> None);
          radar_data = (\<lambda>k. map_option (\<lambda>v. map (round_val binary32) (data v)) (var k));
          fhc_vars = (\<lambda>k. if var k \<noteq> None then 1 else 0)
      in case dz of
           None \<Rightarrow> Inl UnboundLocalError
         | Some v \<Rightarrow> Inr (radar_data, fhc_vars, shape v, prod_list (shape v)))"

text \<open>
  \<^verbatim>\<open>
  def _get_weight_sum(fhc_vars, weights, method, verbose):
      if 'hybrid' in method:
          varlist = ['DR', 'KD', 'RH', 'LD']
      elif 'linear' in method:
          varlist = ['DR', 'KD', 'RH', 'LD', 'T', 'DZ']
      else:
          print('No weighting method defined, use hybrid or linear')
          return None, None
      weight_sum = np.sum(np.array([fhc_vars[key]*weights[key]
                                   for key in varlist]))
      return weight_sum, varlist
  \<close>
  The result \<open>None\<close> of the model is the pair \<open>(None, None)\<close>.
\<close>

definition get_weight_sum ::
  "(key \<Rightarrow> nat) \<Rightarrow> (key \<Rightarrow> real) \<Rightarrow> string \<Rightarrow> (real \<times> key list) option" where
  "get_weight_sum fhc_vars weights method =
     (if str_in ''hybrid'' method then
        (let varlist = [DR, KD, RH, LD]
         in Some (sum_list (map (\<lambda>k. real (fhc_vars k) * weights k) varlist), varlist))
      else if str_in ''linear'' method then
        (let varlist = [DR, KD, RH, LD, T, DZ]
         in Some (sum_list (map (\<lambda>k. real (fhc_vars k) * weights k) varlist), varlist))
      else None)"

text \<open>
  The call \<open>hid_beta_f(sz, radar_data[key], sets[key]['a'][c], sets[key]['b'][c],
  sets[key]['m'][c])\<close>, with its arguments evaluated from left to right.
\<close>

definition beta_of ::
  "externals \<Rightarrow> (key \<rightharpoonup> npfloat list) \<Rightarrow> (key \<Rightarrow> mbf) \<Rightarrow> nat \<Rightarrow> nat \<Rightarrow> key
     \<Rightarrow> py_error + npfloat list" where
  "beta_of ext radar_data sets c sz k =
     (case radar_data k of
        None \<Rightarrow> Inl KeyError
      | Some x \<Rightarrow>
          bind_err (idx (mbf_a (sets k)) c) (\<lambda>a.
          bind_err (idx (mbf_b (sets k)) c) (\<lambda>b.
          bind_err (idx (mbf_m (sets k)) c) (\<lambda>m.
          Inr (hid_beta_f ext sz x a b m)))))"

text \<open>
  \<^verbatim>\<open>
  def _calculate_test(fhc_vars, weights, radar_data, sets,
                      varlist, weight_sum, c, sz):
      test = (np.sum(np.array([fhc_vars[key] * weights[key] *
                              hid_beta_f(sz, radar_data[key], sets[key]['a'][c],
                              sets[key]['b'][c], sets[key]['m'][c])
              for key in varlist if key in radar_data.keys()]),
              axis=0))/weight_sum
      return test
  \<close>
  The division is numpy's: a zero \<open>weight_sum\<close> gives \<open>nan\<close> or \<open>inf\<close> entries, not an
  exception.
\<close>

definition calculate_test ::
  "externals \<Rightarrow> (key \<Rightarrow> nat) \<Rightarrow> (key \<Rightarrow> real) \<Rightarrow> (key \<rightharpoonup> npfloat list) \<Rightarrow> (key \<Rightarrow> mbf)
     \<Rightarrow> key list \<Rightarrow> real \<Rightarrow> nat \<Rightarrow> nat \<Rightarrow> py_error + ndarr" where
  "calculate_test ext fhc_vars weights radar_data sets varlist weight_sum c sz =
     bind_err
       (collect
          (\<lambda>k. bind_err (beta_of ext radar_data sets c sz k) (\<lambda>beta.
                Inr (map (np_mul (Fin (real (fhc_vars k) * weights k))) beta)))
          (filter (\<lambda>k. radar_data k \<noteq> None) varlist))
       (\<lambda>terms. bind_err (np_sum_axis0 terms) (\<lambda>total. Inr (ndarr_div total weight_sum)))"

text \<open>
  \<^verbatim>\<open>
  def _calculate_test_trap(fhc_vars, weights, radar_data, sets,
                      varlist, weight_sum, c, sz):
      b_val = []
      for key in varlist :
          if key in radar_data.keys():
              if key == 'T':
                  tst  = (get_hid_traps(c,radar_data[key]))
                  b_val.append(tst)
              else:
                  tst =(fhc_vars[key]*weights[key]*hid_beta_f(sz,radar_data[key],sets[key]['a'][c],
                          sets[key]['b'][c],sets[key]['m'][c]))
                  b_val.append(tst)
      test = (np.sum(np.array(b_val),axis=0)/weight_sum)
      return test
  \<close>
\<close>

definition calculate_test_trap ::
  "externals \<Rightarrow> (key \<Rightarrow> nat) \<Rightarrow> (key \<Rightarrow> real) \<Rightarrow> (key \<rightharpoonup> npfloat list) \<Rightarrow> (key \<Rightarrow> mbf)
     \<Rightarrow> key list \<Rightarrow> real \<Rightarrow> nat \<Rightarrow> nat \<Rightarrow> py_error + ndarr" where
  "calculate_test_trap ext fhc_vars weights radar_data sets varlist weight_sum c sz =
     bind_err
       (collect
          (\<lambda>k. if k = T
                then (case radar_data k of
                        None \<Rightarrow> Inl KeyError
                      | Some x \<Rightarrow> Inr (get_hid_traps ext c x))
                else bind_err (beta_of ext radar_data sets c sz k) (\<lambda>beta.
                     Inr (map (np_mul (Fin (real (fhc_vars k) * weights k))) beta)))
          (filter (\<lambda>k. radar_data k \<noteq> None) varlist))
       (\<lambda>b_val. bind_err (np_sum_axis0 b_val) (\<lambda>total. Inr (ndarr_div total weight_sum)))"

text \<open>
  The two statement forms that set \<open>test\<close> in the loop of \<open>_get_test_list\<close>. The local
  variable is \<open>None\<close> while it is unbound. \<open>test *= rhs\<close> reads \<open>test\<close> first
  (UnboundLocalError when it is unbound), then evaluates \<open>rhs\<close>.
\<close>

definition assign_test :: "py_error + npfloat list \<Rightarrow> py_error + ndarr option" where
  "assign_test rhs = bind_err rhs (\<lambda>ys. Inr (Some (Vec ys)))"

definition imul_test :: "ndarr option \<Rightarrow> py_error + npfloat list \<Rightarrow> py_error + ndarr option" where
  "imul_test test rhs =
     (case test of
        None \<Rightarrow> Inl UnboundLocalError
      | Some t \<Rightarrow> bind_err rhs (\<lambda>ys. bind_err (imul t ys) (\<lambda>t'. Inr (Some t'))))"

text \<open>
  The body of the loop over the species \<open>c\<close> in \<open>_get_test_list\<close>, up to the
  \<open>append\<close>: from the binding of \<open>test\<close> before the iteration to the binding after it.
  \<^verbatim>\<open>
  if 'hybrid' in method:
      if pol_flag:
          if trap_flag:
              test = _calculate_test_trap(...)
          else:
              test = _calculate_test(...)
      if use_temp:
          if pol_flag:
              test *= hid_beta_f(sz, radar_data['T'], sets['T']['a'][c],
                                 sets['T']['b'][c], sets['T']['m'][c])
          else:
              test = hid_beta_f(sz, radar_data['T'], sets['T']['a'][c],
                                sets['T']['b'][c], sets['T']['m'][c])
      if fhc_vars['DZ']:
          if pol_flag or use_temp:
              test *= hid_beta_f(sz, radar_data['DZ'], sets['DZ']['a'][c],
                                 sets['DZ']['b'][c], sets['DZ']['m'][c])
          else:
              test = hid_beta_f(sz, radar_data['DZ'], sets['DZ']['a'][c],
                                sets['DZ']['b'][c], sets['DZ']['m'][c])
  elif 'linear' in method:
      if pol_flag:
          if trap_flag:
              test = _calculate_test_trap(...)
          else:
              test = _calculate_test(...)
  \<close>
\<close>

definition species_test ::
  "externals \<Rightarrow> (key \<Rightarrow> nat) \<Rightarrow> (key \<Rightarrow> real) \<Rightarrow> (key \<rightharpoonup> npfloat list) \<Rightarrow> (key \<Rightarrow> mbf)
     \<Rightarrow> key list \<Rightarrow> real \<Rightarrow> bool \<Rightarrow> bool \<Rightarrow> bool \<Rightarrow> string \<Rightarrow> nat \<Rightarrow> nat
     \<Rightarrow> ndarr option \<Rightarrow> py_error + ndarr option" where
  "species_test ext fhc_vars weights radar_data sets varlist weight_sum pol_flag trap_flag
       use_temp method sz c test =
     (let pol_core =
            bind_err
              (if trap_flag
               then calculate_test_trap ext fhc_vars weights radar_data sets varlist weight_sum c sz
               else calculate_test ext fhc_vars weights radar_data sets varlist weight_sum c sz)
              (\<lambda>t. Inr (Some t))
      in
      if str_in ''hybrid'' method then
        bind_err (if pol_flag then pol_core else Inr test) (\<lambda>test.
        bind_err (if use_temp
                  then (if pol_flag
                        then imul_test test (beta_of ext radar_data sets c sz T)
                        else assign_test (beta_of ext radar_data sets c sz T))
                  else Inr test) (\<lambda>test.
        if fhc_vars DZ \<noteq> 0
        then (if pol_flag \<or> use_temp
              then imul_test test (beta_of ext radar_data sets c sz DZ)
              else assign_test (beta_of ext radar_data sets c sz DZ))
        else Inr test))
      else if str_in ''linear'' method then
        (if pol_flag then pol_core else Inr test)
      else Inr test)"

text \<open>
  The loop of \<open>_get_test_list\<close>: \<open>test\<close> keeps its binding from one iteration to the
  next, and \<open>test_list.append(test)\<close> raises UnboundLocalError while it is unbound.
\<close>

fun test_loop ::
  "(nat \<Rightarrow> ndarr option \<Rightarrow> py_error + ndarr option) \<Rightarrow> nat list \<Rightarrow> ndarr option \<Rightarrow> ndarr list
     \<Rightarrow> py_error + ndarr list" where
  "test_loop body [] test test_list = Inr test_list"
| "test_loop body (c # cs) test test_list =
     bind_err (body c test) (\<lambda>test.
       case test of
         None \<Rightarrow> Inl UnboundLocalError
       | Some t \<Rightarrow> test_loop body cs test (test_list @ [t]))"

text \<open>
  \<^verbatim>\<open>
  def _get_test_list(fhc_vars, weights, radar_data, sets, varlist, weight_sum,
                     pol_flag,trap_flag, use_temp, method, sz):
      test_list = []
      for c in range(len(sets['DZ']['m'])):
          ...
          test_list.append(test)
      return test_list
  \<close>
\<close>

definition get_test_list ::
  "externals \<Rightarrow> (key \<Rightarrow> nat) \<Rightarrow> (key \<Rightarrow> real) \<Rightarrow> (key \<rightharpoonup> npfloat list) \<Rightarrow> (key \<Rightarrow> mbf)
     \<Rightarrow> key list \<Rightarrow> real \<Rightarrow> bool \<Rightarrow> bool \<Rightarrow> bool \<Rightarrow> string \<Rightarrow> nat
     \<Rightarrow> py_error + ndarr list" where
  "get_test_list ext fhc_vars weights radar_data sets varlist weight_sum pol_flag trap_flag
       use_temp method sz =
     test_loop
       (species_test ext fhc_vars weights radar_data sets varlist weight_sum pol_flag trap_flag
          use_temp method sz)
       [0 ..< length (mbf_m (sets DZ))] None []"

subsection \<open>The public function\<close>

text \<open>
  \<^verbatim>\<open>
  def csu_fhc_summer(use_temp=True, weights=DEFAULT_WEIGHTS, method='hybrid',
                     dz=None, zdr=None, ldr=None, kdp=None, rho=None, T=None,
                     verbose=False, plot_flag=False, use_trap=False,n_types=10, temp_factor=1,
                     band='S',return_scores=False):
      if dz is None:
          print('FHC fail, no reflectivity field')
          return None
      if T is None:
          use_temp = False
      radar_data, fhc_vars, shp, sz = \
          _populate_vars(dz, zdr, kdp, rho, ldr, T, verbose)
      mbf_sets = get_mbf_sets_summer(
          use_temp=use_temp, plot_flag=plot_flag, n_types=n_types,
          temp_factor=temp_factor, band=band, verbose=verbose)
      sets = _convert_mbf_sets(mbf_sets)
      pol_flag = _get_pol_flag(fhc_vars)
      if use_trap:
          trap_flag = True
      else:
          trap_flag = False
      if use_temp:
          ...
      else:
          fhc_vars['T'] = 0
      weight_sum, varlist = _get_weight_sum(fhc_vars, weights, method, verbose)
      if weight_sum is None:
          return None
      test_list = _get_test_list(fhc_vars, weights, radar_data, sets, varlist,
                                 weight_sum, pol_flag, trap_flag,use_temp, method, sz)
      if test_list is None:
          return None
      mu = np.array(test_list)
      shp = np.concatenate([[n_types], shp])
      if verbose:
          print(mu.shape)
          print('mu max: ', mu.max())
      if return_scores:
          return mu.reshape(shp.astype(np.int32))
      else:
          hid = np.argmax(mu.reshape(shp.astype(np.int32)), axis=0) + 1
          return hid
  \<close>
  The result is \<open>Inr None\<close> for the returned \<open>None\<close>, \<open>Inr (Some v)\<close> for a returned
  array and \<open>Inl e\<close> for an exception that leaves the function. Printing is left out,
  except that \<open>mu.max()\<close>, evaluated under \<open>verbose\<close>, raises ValueError on an array
  without elements. \<open>_get_test_list\<close> never returns \<open>None\<close>. The category array has
  the shape of the cube without its first axis.
\<close>

definition csu_fhc_summer :: "externals \<Rightarrow> summer_args \<Rightarrow> py_error + summer_value option" where
  "csu_fhc_summer ext args =
     (if dz_arg args = None then Inr None
      else
        let use_temp = (if T_arg args = None then False else use_temp_arg args) in
        bind_err (populate_vars (dz_arg args) (zdr_arg args) (kdp_arg args) (rho_arg args)
                    (ldr_arg args) (T_arg args))
          (\<lambda>(radar_data, fhc_vars, shp, sz).
        let mbf_sets = get_mbf_sets_summer ext use_temp (plot_flag_arg args) (n_types_arg args)
                         (temp_factor_arg args) (band_arg args) (verbose_arg args);
            sets = convert_mbf_sets mbf_sets;
            pol_flag = get_pol_flag fhc_vars;
            trap_flag = (if use_trap_arg args then True else False);
            fhc_vars = (if use_temp then fhc_vars else fhc_vars (T := 0))
        in
        case get_weight_sum fhc_vars (weights_arg args) (method_arg args) of
          None \<Rightarrow> Inr None
        | Some (weight_sum, varlist) \<Rightarrow>
            bind_err (get_test_list ext fhc_vars (weights_arg args) radar_data sets varlist
                        weight_sum pol_flag trap_flag use_temp (method_arg args) sz)
              (\<lambda>test_list.
            bind_err (np_array test_list) (\<lambda>mu.
            bind_err (if verbose_arg args \<and> mu = [] then Inl ValueError else Inr ()) (\<lambda>_.
            bind_err (target_dims (n_types_arg args) shp) (\<lambda>dims.
            bind_err (resolve_dims (length mu) dims) (\<lambda>dims.
            if return_scores_arg args
            then Inr (Some (Scores dims (reshape_rows mu dims)))
            else bind_err (argmax_axis0 (reshape_rows mu dims)) (\<lambda>am.
                 Inr (Some (Hid (tl dims) (map Suc am)))))))))))"

section \<open>Concrete inputs\<close>

text \<open>
  A winter case with three bins: the regime mask \<open>[0, 2, 2]\<close> at address 0, the melt
  categorization \<open>[0, 1, 2]\<close> at address 1, two warm and three cold species.
\<close>

definition example_store :: store where
  "example_store = (\<lambda>p. if p = 0 then [0, 2, 2] else if p = 1 then [0, 1, 2] else [])"

definition example_melt :: "unit melt_out" where
  "example_melt = \<lparr>meltlev = 0, fh = 1, scores_ML = ()\<rparr>"

definition example_warm :: cube where
  "example_warm = [[Fin 0.1, Fin 0.9, Fin 0.5], [Fin 0.8, Fin 0.2, Fin 0.5]]"

definition example_cold :: cube where
  "example_cold = [[Fin 0.1, Fin 0.2, Fin 0.3], [Fin 0.2, Fin 0.6, Fin 0.1],
                   [Fin 0.7, Fin 0.3, Fin 0.2]]"

text \<open>
  A summer case with two species and two bins of reflectivity only. The provider
  returns the same parameters for every variable; \<open>hid_beta_f\<close> is instantiated with
  \<open>hid_beta\<close>, the Python function it replaced in \<open>_calculate_test\<close>, in binary32. The
  measurands are binary32 numbers, and every score of the case is one.
\<close>

definition example_mbf :: mbf where
  "example_mbf = \<lparr>mbf_a = [2, 2], mbf_b = [1, 1], mbf_m = [1, 3]\<rparr>"

definition example_ext :: externals where
  "example_ext =
     \<lparr>get_mbf_sets_summer = (\<lambda>use_temp plot_flag n_types temp_factor band verbose.
          \<lparr>Zh_set = example_mbf, Zdr_set = example_mbf, Kdp_set = example_mbf,
           LDR_set = example_mbf, rho_set = example_mbf, T_set = example_mbf\<rparr>),
      hid_beta_f = (\<lambda>sz x a b m. hid_beta binary32 (pow_with binary32) x a b m),
      get_hid_traps = (\<lambda>c x. map (\<lambda>v. Fin 1) x)\<rparr>"

definition example_args :: "string \<Rightarrow> summer_args" where
  "example_args meth =
     \<lparr>use_temp_arg = True, weights_arg = DEFAULT_WEIGHTS, method_arg = meth,
      dz_arg = Some \<lparr>shape = [2], data = [Fin 1, Fin 3]\<rparr>,
      zdr_arg = None, ldr_arg = None, kdp_arg = None, rho_arg = None, T_arg = None,
      verbose_arg = False, plot_flag_arg = False, use_trap_arg = False, n_types_arg = 2,
      temp_factor_arg = 1, band_arg = ''S'', return_scores_arg = False\<rparr>"

section \<open>Facts about the model\<close>

subsection \<open>Facts about the float formats and \<open>hid_beta\<close>\<close>

lemma bind_err_Inl [simp]: "bind_err (Inl e) f = Inl e"
  by (simp add: bind_err_def)

lemma bind_err_Inr [simp]: "bind_err (Inr x) f = f x"
  by (simp add: bind_err_def)

lemma rhe_mono: assumes "t \<le> u" shows "round_half_even t \<le> round_half_even u"
proof (cases "\<lfloor>t\<rfloor> = \<lfloor>u\<rfloor>")
  case True
  then show ?thesis using assms unfolding round_half_even_def by auto
next
  case False
  then have "\<lfloor>t\<rfloor> + 1 \<le> \<lfloor>u\<rfloor>" using assms floor_mono [OF assms] by linarith
  moreover have "round_half_even t \<le> \<lfloor>t\<rfloor> + 1" unfolding round_half_even_def by auto
  moreover have "\<lfloor>u\<rfloor> \<le> round_half_even u" unfolding round_half_even_def by auto
  ultimately show ?thesis by linarith
qed

lemma rhe_of_int [simp]: "round_half_even (of_int n) = n"
  by (simp add: round_half_even_def)

lemma rhe_minus: "round_half_even (- t) = - round_half_even t"
proof (cases "t = of_int \<lfloor>t\<rfloor>")
  case True
  then obtain n where "t = of_int n" ..
  then have "- t = of_int (- n)" by simp
  then show ?thesis using \<open>t = of_int n\<close> by (simp only: rhe_of_int)
next
  case False
  then have f: "\<lfloor>- t\<rfloor> = - \<lfloor>t\<rfloor> - 1" by linarith
  have lt: "of_int \<lfloor>t\<rfloor> < t" using False by linarith
  show ?thesis unfolding round_half_even_def f using lt by (auto; linarith?)
qed

lemma floor_log2_bounds:
  assumes "0 < x"
  shows "2 powi \<lfloor>log 2 x\<rfloor> \<le> x \<and> x < 2 powi (\<lfloor>log 2 x\<rfloor> + 1)"
proof -
  have "2 powr real_of_int \<lfloor>log 2 x\<rfloor> \<le> x \<and> x < 2 powr real_of_int (\<lfloor>log 2 x\<rfloor> + 1)"
    using floor_log_eq_powr_iff [of x 2 "\<lfloor>log 2 x\<rfloor>"] assms by simp
  then show ?thesis by (simp only: powr_real_of_int' [of 2, simplified])
qed

lemma floor_log2_eq:
  assumes "2 powi k \<le> x" "x < 2 powi (k + 1)"
  shows "\<lfloor>log 2 x\<rfloor> = k"
proof -
  have "0 < (2::real) powi k" by (rule zero_less_power_int) simp
  then have x: "0 < x" using assms(1) by linarith
  have "2 powr real_of_int k \<le> x \<and> x < 2 powr real_of_int (k + 1)"
    using assms by (simp only: powr_real_of_int' [of 2, simplified])
  then show ?thesis using floor_log_eq_powr_iff [of x 2 k] x by simp
qed

lemma round_at_mono: "x \<le> y \<Longrightarrow> round_at e x \<le> round_at e y"
proof -
  assume xy: "x \<le> y"
  have pos: "0 < (2::real) powi e" by (rule zero_less_power_int) simp
  then have "x / 2 powi e \<le> y / 2 powi e" using xy by (simp add: divide_right_mono)
  then have "round_half_even (x / 2 powi e) \<le> round_half_even (y / 2 powi e)"
    by (rule rhe_mono)
  then show ?thesis unfolding round_at_def using pos by (simp add: mult_right_mono)
qed

lemma round_at_exact: "round_at e (2 powi (e + int n)) = 2 powi (e + int n)"
proof -
  have "(2::real) powi (e + int n) = 2 powi e * 2 powi int n"
    by (rule power_int_add) simp
  also have "(2::real) powi int n = of_int (2 ^ n)" by (simp add: power_int_of_nat)
  finally have e: "(2::real) powi (e + int n) = 2 powi e * of_int (2 ^ n)" .
  have nz: "(2::real) powi e \<noteq> 0" by simp
  have "2 powi (e + int n) / (2::real) powi e = of_int (2 ^ n)"
    unfolding e using nz by simp
  then show ?thesis unfolding round_at_def by (simp only: rhe_of_int) (simp add: e)
qed

lemma round_at_zero [simp]: "round_at e 0 = 0"
  by (simp add: round_at_def round_half_even_def)

lemma round_at_minus: "round_at e (- x) = - round_at e x"
  by (simp add: round_at_def rhe_minus)

lemma round_to_place_minus: "round_to_place p emin (- x) = - round_to_place p emin x"
  by (simp add: round_to_place_def last_place_def round_at_minus)

lemma round_to_place_nonneg:
  assumes "0 \<le> x" shows "0 \<le> round_to_place p emin x"
proof (cases "x = 0")
  case True
  then show ?thesis by (simp add: round_to_place_def)
next
  case False
  have "round_at (last_place p emin x) 0 \<le> round_at (last_place p emin x) x"
    using assms by (rule round_at_mono)
  then show ?thesis using False by (simp add: round_to_place_def)
qed

lemma round_to_place_mono_pos:
  assumes p: "1 \<le> p" and x: "0 < x" and xy: "x \<le> y"
  shows "round_to_place p emin x \<le> round_to_place p emin y"
proof -
  define kx where "kx = max \<lfloor>log 2 x\<rfloor> emin"
  define ky where "ky = max \<lfloor>log 2 y\<rfloor> emin"
  define d where "d = int p - 1"
  have y: "0 < y" using x xy by linarith
  have d: "0 \<le> d" using p by (simp add: d_def)
  have rx: "round_to_place p emin x = round_at (kx - d) x"
    using x by (simp add: round_to_place_def last_place_def kx_def d_def)
  have ry: "round_to_place p emin y = round_at (ky - d) y"
    using y by (simp add: round_to_place_def last_place_def ky_def d_def)
  have "log 2 x \<le> log 2 y" using x xy by simp
  then have "\<lfloor>log 2 x\<rfloor> \<le> \<lfloor>log 2 y\<rfloor>" by (rule floor_mono)
  then have k: "kx \<le> ky" by (auto simp add: kx_def ky_def)
  show ?thesis
  proof (cases "kx = ky")
    case True
    then show ?thesis unfolding rx ry using xy by (simp add: round_at_mono)
  next
    case False
    with k have lt: "kx + 1 \<le> ky" by simp
    have "x < 2 powi (\<lfloor>log 2 x\<rfloor> + 1)" using floor_log2_bounds [OF x] by simp
    also have "\<dots> \<le> 2 powi (kx + 1)"
      by (rule power_int_increasing) (simp_all add: kx_def)
    finally have xb: "x \<le> 2 powi (kx + 1)" by simp
    have e1: "kx - d + int (nat (d + 1)) = kx + 1" using d by simp
    have "round_at (kx - d) x \<le> round_at (kx - d) (2 powi (kx + 1))"
      using xb by (rule round_at_mono)
    also have "\<dots> = 2 powi (kx + 1)"
      using round_at_exact [of "kx - d" "nat (d + 1)"] unfolding e1 .
    finally have ux: "round_at (kx - d) x \<le> 2 powi (kx + 1)" .
    have "emin < ky" using lt by (simp add: kx_def)
    then have ky': "ky = \<lfloor>log 2 y\<rfloor>" by (simp add: ky_def max_def split: if_splits)
    have yb: "2 powi ky \<le> y" unfolding ky' using floor_log2_bounds [OF y] by simp
    have e2: "ky - d + int (nat d) = ky" using d by simp
    have "round_at (ky - d) (2 powi ky) \<le> round_at (ky - d) y"
      using yb by (rule round_at_mono)
    moreover have "round_at (ky - d) (2 powi ky) = 2 powi ky"
      using round_at_exact [of "ky - d" "nat d"] unfolding e2 .
    ultimately have ly: "2 powi ky \<le> round_at (ky - d) y" by simp
    have "(2::real) powi (kx + 1) \<le> 2 powi ky"
      using lt by (rule power_int_increasing) simp
    with ux ly show ?thesis unfolding rx ry by linarith
  qed
qed

lemma round_to_place_mono:
  assumes p: "1 \<le> p" and xy: "x \<le> y"
  shows "round_to_place p emin x \<le> round_to_place p emin y"
proof -
  consider "0 < x" | "x \<le> 0" "0 \<le> y" | "y < 0" using xy by linarith
  then show ?thesis
  proof cases
    case 1
    show ?thesis by (rule round_to_place_mono_pos [OF p 1 xy])
  next
    case 2
    have "0 \<le> round_to_place p emin (- x)" using 2(1) by (simp add: round_to_place_nonneg)
    then have "round_to_place p emin x \<le> 0" by (simp add: round_to_place_minus)
    moreover have "0 \<le> round_to_place p emin y" using 2(2) by (rule round_to_place_nonneg)
    ultimately show ?thesis by linarith
  next
    case 3
    have "round_to_place p emin (- y) \<le> round_to_place p emin (- x)"
      using p by (rule round_to_place_mono_pos) (use 3 xy in simp_all)
    then show ?thesis by (simp add: round_to_place_minus)
  qed
qed

lemma binary_round_mono:
  assumes p: "1 \<le> p" and xy: "x \<le> y"
  shows "np_le (binary_round p emin emax x) (binary_round p emin emax y)"
proof -
  define T :: real where "T = 2 powi (emax + 1)"
  have pos: "0 < T" unfolding T_def by (rule zero_less_power_int) simp
  have "round_to_place p emin x \<le> round_to_place p emin y"
    using p xy by (rule round_to_place_mono)
  then show ?thesis using pos by (auto simp add: binary_round_def Let_def T_def [symmetric])
qed

lemma binary_round_not_NaN: "binary_round p emin emax x \<noteq> NaN"
  by (simp add: binary_round_def Let_def)

lemma floor_log2_half: "\<lfloor>log 2 (1 / 2::real)\<rfloor> = - 1"
  by (rule floor_log2_eq) simp_all

lemma binary32_values:
  "binary32 0 = Fin 0" "binary32 1 = Fin 1" "binary32 2 = Fin 2"
  "binary32 (1 / 2) = Fin (1 / 2)"
  by (simp_all add: binary32_def binary_round_def round_to_place_def last_place_def
      round_at_def round_half_even_def floor_log2_half Let_def)

lemma binary32_ieee: "ieee_rounding binary32"
  unfolding ieee_rounding_def
  by (simp add: binary32_values) (simp add: binary32_def binary_round_not_NaN binary_round_mono)

lemma binary64_values:
  "binary64 0 = Fin 0" "binary64 1 = Fin 1" "binary64 2 = Fin 2"
  "binary64 (1 / 2) = Fin (1 / 2)"
  by (simp_all add: binary64_def binary_round_def round_to_place_def last_place_def
      round_at_def round_half_even_def floor_log2_half Let_def)

lemma binary64_ieee: "ieee_rounding binary64"
  unfolding ieee_rounding_def
  by (simp add: binary64_values) (simp add: binary64_def binary_round_not_NaN binary_round_mono)

lemma floor_log2_3: "\<lfloor>log 2 (3::real)\<rfloor> = 1"
  by (rule floor_log2_eq) simp_all

lemma binary32_more:
  "binary32 3 = Fin 3" "binary32 (- 1) = Fin (- 1)" "binary32 (- 2) = Fin (- 2)"
  by (simp_all add: binary32_def binary_round_def round_to_place_def last_place_def
      round_at_def round_half_even_def floor_log2_3 Let_def)

lemma np_le_Fin_left: "np_le (Fin c) v \<longleftrightarrow> v = PInf \<or> (\<exists>r. v = Fin r \<and> c \<le> r)"
  by (cases v) auto

lemma np_le_Fin_right: "np_le v (Fin c) \<longleftrightarrow> v = NInf \<or> (\<exists>r. v = Fin r \<and> r \<le> c)"
  by (cases v) auto

lemma rnd_above:
  assumes "ieee_rounding rnd" "rnd c = Fin c" "c \<le> z"
  shows "np_le (Fin c) (rnd z)"
  using assms unfolding ieee_rounding_def by metis

lemma rnd_below:
  assumes "ieee_rounding rnd" "rnd c = Fin c" "z \<le> c"
  shows "np_le (rnd z) (Fin c)"
  using assms unfolding ieee_rounding_def by metis

lemma rnd_unit:
  assumes r: "ieee_rounding rnd" and z: "0 \<le> z" "z \<le> 1"
  shows "\<exists>v. rnd z = Fin v \<and> 0 \<le> v \<and> v \<le> 1"
proof -
  have r0: "rnd 0 = Fin 0" and r1: "rnd 1 = Fin 1" using r by (simp_all add: ieee_rounding_def)
  have lo: "np_le (Fin 0) (rnd z)" using rnd_above [OF r r0 z(1)] .
  have hi: "np_le (rnd z) (Fin 1)" using rnd_below [OF r r1 z(2)] .
  from lo hi show ?thesis
    by (cases "rnd z") auto
qed

lemma pow_with_ieee:
  assumes r: "ieee_rounding rnd"
  shows "ieee_pow (pow_with rnd)"
proof -
  have r0: "rnd 0 = Fin 0" and r1: "rnd 1 = Fin 1" using r by (simp_all add: ieee_rounding_def)
  have pos: "np_le (Fin 0) (pow_with rnd (Fin x) (Fin y))" if "0 < x" for x y
  proof -
    have "np_le (Fin 0) (rnd (x powr y))" by (rule rnd_above [OF r r0]) simp
    then show ?thesis using that r1 by (simp add: pow_with_def c99_pow_def pow_real_def)
  qed
  have sq: "np_le (Fin 0) (pow_with rnd (Fin x) (Fin 2))" for x
  proof -
    consider "0 < x" | "x = 0" | "x < 0" by linarith
    then show ?thesis
    proof cases
      case 1
      then show ?thesis by (rule pos)
    next
      case 2
      then show ?thesis by (simp add: pow_with_def c99_pow_def pow_real_def r0)
    next
      case 3
      have i: "(2::real) = of_int \<lfloor>2::real\<rfloor>" by simp
      have "np_le (Fin 0) (rnd ((- x) powr 2))" by (rule rnd_above [OF r r0]) simp
      then show ?thesis using 3 i by (simp add: pow_with_def c99_pow_def pow_real_def)
    qed
  qed
  have i2: "(2::real) = of_int \<lfloor>2::real\<rfloor>" by simp
  have even: "pow_with rnd (Fin (- x)) (Fin 2) = pow_with rnd (Fin x) (Fin 2)" for x
  proof -
    consider "0 < x" | "x = 0" | "x < 0" by linarith
    then show ?thesis
    proof cases
      case 1
      then show ?thesis using i2 by (simp add: pow_with_def c99_pow_def pow_real_def r1)
    next
      case 2
      then show ?thesis by simp
    next
      case 3
      then show ?thesis using i2 by (simp add: pow_with_def c99_pow_def pow_real_def r1)
    qed
  qed
  show ?thesis
    unfolding ieee_pow_def
    using pos sq even
    by (simp add: pow_with_def c99_pow_def pow_real_def r0 r1)
qed

lemma hid_beta_elem_range:
  assumes r: "ieee_rounding rnd" and p: "ieee_pow pw" and a: "a \<noteq> 0"
  shows "\<exists>v. hid_beta_elem rnd pw a b m (Fin x) = Fin v \<and> 0 \<le> v \<and> v \<le> 1"
proof -
  have r0: "rnd 0 = Fin 0" and r1: "rnd 1 = Fin 1" and nn: "\<And>z. rnd z \<noteq> NaN"
    using r by (simp_all add: ieee_rounding_def)
  define d where "d = fl_sub rnd (Fin x) (Fin m)"
  define q where "q = fl_div rnd d (Fin a)"
  define s where "s = pw q (Fin 2)"
  define pp where "pp = pw s (Fin b)"
  define t where "t = fl_add rnd (Fin 1) pp"
  have res: "hid_beta_elem rnd pw a b m (Fin x) = fl_div rnd (Fin 1) t"
    by (simp add: hid_beta_elem_def d_def q_def s_def pp_def t_def)
  have d: "d \<noteq> NaN" by (simp add: d_def fl_sub_def nn)
  have q: "q \<noteq> NaN"
    using d a nn by (cases d) (simp_all add: q_def fl_div_def)
  have s: "np_le (Fin 0) s"
    using q p by (cases q) (simp_all add: s_def ieee_pow_def)
  have pp: "np_le (Fin 0) pp"
  proof -
    from s consider "s = PInf" | u where "s = Fin u" "0 \<le> u"
      by (auto simp add: np_le_Fin_left)
    then show ?thesis
    proof cases
      case 1
      consider "0 < b" | "b = 0" | "b < 0" by linarith
      then show ?thesis using p 1 by cases (simp_all add: pp_def ieee_pow_def)
    next
      case 2
      show ?thesis
      proof (cases "u = 0")
        case True
        consider "0 < b" | "b = 0" | "b < 0" by linarith
        then show ?thesis using p 2 True by cases (simp_all add: pp_def ieee_pow_def)
      next
        case False
        with 2 have "0 < u" by simp
        then show ?thesis using p 2 by (simp add: pp_def ieee_pow_def)
      qed
    qed
  qed
  have t: "np_le (Fin 1) t"
  proof -
    from pp consider "pp = PInf" | u where "pp = Fin u" "0 \<le> u"
      by (auto simp add: np_le_Fin_left)
    then show ?thesis
    proof cases
      case 1
      then show ?thesis by (simp add: t_def fl_add_def)
    next
      case 2
      have "np_le (Fin 1) (rnd (1 + u))" by (rule rnd_above [OF r r1]) (use 2 in simp)
      then show ?thesis using 2 by (simp add: t_def fl_add_def)
    qed
  qed
  from t consider "t = PInf" | u where "t = Fin u" "1 \<le> u"
    by (auto simp add: np_le_Fin_left)
  then show ?thesis
  proof cases
    case 1
    then show ?thesis by (simp add: res fl_div_def r0)
  next
    case 2
    have "0 \<le> 1 / u" "1 / u \<le> 1" using 2 by simp_all
    then have "\<exists>v. rnd (1 / u) = Fin v \<and> 0 \<le> v \<and> v \<le> 1" by (rule rnd_unit [OF r])
    then show ?thesis using 2 by (simp add: res fl_div_def)
  qed
qed

lemma hid_beta_elem_centre:
  assumes r: "ieee_rounding rnd" and p: "ieee_pow pw" and a: "a \<noteq> 0"
  shows "hid_beta_elem rnd pw a b m (Fin m) =
           (if 0 < b then Fin 1 else if b = 0 then Fin (1 / 2) else Fin 0)"
proof -
  have r0: "rnd 0 = Fin 0" and r1: "rnd 1 = Fin 1" and r2: "rnd 2 = Fin 2"
    and rh: "rnd (1 / 2) = Fin (1 / 2)"
    using r by (simp_all add: ieee_rounding_def)
  have s: "pw (fl_div rnd (fl_sub rnd (Fin m) (Fin m)) (Fin a)) (Fin 2) = Fin 0"
    using a p by (simp add: fl_sub_def fl_div_def r0 ieee_pow_def)
  consider "0 < b" | "b = 0" | "b < 0" by linarith
  then show ?thesis
  proof cases
    case 1
    then have "pw (Fin 0) (Fin b) = Fin 0" using p by (simp add: ieee_pow_def)
    then show ?thesis unfolding hid_beta_elem_def s using 1 by (simp add: fl_add_def fl_div_def r1)
  next
    case 2
    then have "pw (Fin 0) (Fin b) = Fin 1" using p by (simp add: ieee_pow_def)
    then show ?thesis unfolding hid_beta_elem_def s using 2 by (simp add: fl_add_def fl_div_def r2 rh)
  next
    case 3
    then have "pw (Fin 0) (Fin b) = PInf" using p by (simp add: ieee_pow_def)
    then show ?thesis unfolding hid_beta_elem_def s using 3 by (simp add: fl_add_def fl_div_def r0)
  qed
qed



lemma py_pow_square:
  assumes p: "ieee_pow pw" and q: "q \<noteq> NaN" and r: "py_pow pw q (Fin 2) = Inr r"
  shows "r = PyFloat (pw q (Fin 2))"
proof (cases q)
  case (Fin u)
  have i2: "(2::real) = of_int \<lfloor>2::real\<rfloor>" by simp
  have ev: "pw (Fin \<bar>u\<bar>) (Fin 2) = pw (Fin u) (Fin 2)"
    using p by (cases "u < 0") (simp_all add: ieee_pow_def abs_if)
  show ?thesis
  proof (cases "u = 0")
    case True
    then show ?thesis using p r Fin by (simp add: py_pow_def ieee_pow_def)
  next
    case False
    show ?thesis
    proof (cases "\<bar>u\<bar> = 1")
      case True
      then have "pw (Fin u) (Fin 2) = Fin 1" using p ev by (simp add: ieee_pow_def)
      then show ?thesis using r Fin False True i2 by (simp add: py_pow_def)
    next
      case n1: False
      from r Fin False n1 i2 show ?thesis
        by (cases "pw (Fin \<bar>u\<bar>) (Fin 2)") (simp_all add: py_pow_def ev [symmetric])
    qed
  qed
next
  case PInf
  then show ?thesis using p r by (simp add: py_pow_def c99_pow_def ieee_pow_def)
next
  case NInf
  have i2: "(2::real) = of_int \<lfloor>2::real\<rfloor>" by simp
  from NInf show ?thesis using p r i2 by (simp add: py_pow_def c99_pow_def ieee_pow_def)
next
  case NaN
  with q show ?thesis by simp
qed

lemma py_pow_nonneg:
  assumes p: "ieee_pow pw" and s: "np_le (Fin 0) s" and r: "py_pow pw s (Fin b) = Inr r"
  shows "r = PyFloat (pw s (Fin b))"
proof (cases "b = 0")
  case True
  then show ?thesis using p r by (simp add: py_pow_def ieee_pow_def)
next
  case b: False
  from s consider "s = PInf" | u where "s = Fin u" "0 \<le> u"
    by (auto simp add: np_le_Fin_left)
  then show ?thesis
  proof cases
    case 1
    then show ?thesis using p r b by (auto simp add: py_pow_def c99_pow_def ieee_pow_def)
  next
    case 2
    show ?thesis
    proof (cases "u = 0")
      case True
      then show ?thesis using p r b 2
        by (auto simp add: py_pow_def ieee_pow_def split: if_splits)
    next
      case False
      with 2 have u: "0 < u" by simp
      show ?thesis
      proof (cases "u = 1")
        case True
        then show ?thesis using p r b 2 by (simp add: py_pow_def ieee_pow_def)
      next
        case n1: False
        from r 2 b u n1 show ?thesis
          by (cases "pw (Fin u) (Fin b)") (simp_all add: py_pow_def)
      qed
    qed
  qed
qed

lemma hid_beta_float_elem:
  assumes r: "ieee_rounding rnd" and p: "ieee_pow pw"
    and res: "hid_beta_float rnd pw (Fin x) a b m = Inr v"
  shows "v = PyFloat (hid_beta_elem rnd pw a b m (Fin x))"
proof -
  have nn: "\<And>z. rnd z \<noteq> NaN" using r by (simp add: ieee_rounding_def)
  define d where "d = fl_sub rnd (Fin x) (Fin m)"
  define q where "q = fl_div rnd d (Fin a)"
  have a: "a \<noteq> 0"
    using res by (auto simp add: hid_beta_float_def py_div_def)
  have d: "d \<noteq> NaN" by (simp add: d_def fl_sub_def nn)
  have q: "q \<noteq> NaN"
    using d a nn by (cases d) (simp_all add: q_def fl_div_def)
  have dq: "py_div rnd (fl_sub rnd (Fin x) (Fin m)) (Fin a) = Inr q"
    using a by (simp add: py_div_def q_def d_def)
  define s where "s = pw q (Fin 2)"
  have s: "np_le (Fin 0) s"
    using q p by (cases q) (simp_all add: s_def ieee_pow_def)
  show ?thesis
  proof (cases "py_pow pw q (Fin 2)")
    case (Inl e)
    with res show ?thesis by (simp add: hid_beta_float_def dq)
  next
    case sq: (Inr s0)
    have s0: "s0 = PyFloat s" using py_pow_square [OF p q sq] by (simp add: s_def)
    show ?thesis
    proof (cases "py_pow pw s (Fin b)")
      case (Inl e)
      with res show ?thesis by (simp add: hid_beta_float_def dq sq s0)
    next
      case pq: (Inr p0)
      have p0: "p0 = PyFloat (pw s (Fin b))" using py_pow_nonneg [OF p s pq] .
      have e: "hid_beta_elem rnd pw a b m (Fin x) =
                 fl_div rnd (Fin 1) (fl_add rnd (Fin 1) (pw s (Fin b)))"
        by (simp add: hid_beta_elem_def s_def q_def d_def)
      from res have "bind_err (py_div rnd (Fin 1) (fl_add rnd (Fin 1) (pw s (Fin b))))
                       (\<lambda>r. Inr (PyFloat r)) = Inr v"
        by (simp add: hid_beta_float_def dq sq s0 pq p0)
      then show ?thesis
        unfolding e by (simp add: py_div_def split: if_splits)
    qed
  qed
qed

lemma hid_beta_float_centre:
  assumes r: "ieee_rounding rnd" and a: "a \<noteq> 0"
  shows "hid_beta_float rnd pw (Fin m) a b m =
           (if b < 0 then Inl ZeroDivisionError
            else Inr (PyFloat (if b = 0 then Fin (1 / 2) else Fin 1)))"
proof -
  have r0: "rnd 0 = Fin 0" and r1: "rnd 1 = Fin 1" and r2: "rnd 2 = Fin 2"
    and rh: "rnd (1 / 2) = Fin (1 / 2)"
    using r by (simp_all add: ieee_rounding_def)
  have q: "py_div rnd (fl_sub rnd (Fin m) (Fin m)) (Fin a) = Inr (Fin 0)"
    using a by (simp add: py_div_def fl_sub_def fl_div_def r0)
  have s: "py_pow pw (Fin 0) (Fin 2) = Inr (PyFloat (Fin 0))"
    by (simp add: py_pow_def)
  consider "0 < b" | "b = 0" | "b < 0" by linarith
  then show ?thesis
  proof cases
    case 1
    then show ?thesis
      unfolding hid_beta_float_def q
      by (simp add: s py_pow_def py_div_def fl_add_def fl_div_def r1)
  next
    case 2
    then show ?thesis
      unfolding hid_beta_float_def q
      by (simp add: s py_pow_def py_div_def fl_add_def fl_div_def r2 rh)
  next
    case 3
    then show ?thesis
      unfolding hid_beta_float_def q
      by (simp add: s py_pow_def)
  qed
qed

subsection \<open>Facts about the summer classifier\<close>

lemma bind_err_eq_Inr: "bind_err r f = Inr y \<longleftrightarrow> (\<exists>x. r = Inr x \<and> f x = Inr y)"
  by (cases r) simp_all

lemma populate_vars_Some:
  "populate_vars (Some v) zdr kdp rho ldr Tv =
     Inr ((\<lambda>k. map_option (\<lambda>v. map (round_val binary32) (data v))
                 (case k of DZ \<Rightarrow> Some v | DR \<Rightarrow> zdr | KD \<Rightarrow> kdp | RH \<Rightarrow> rho
                                   | LD \<Rightarrow> ldr | T \<Rightarrow> Tv)),
          (\<lambda>k. if (case k of DZ \<Rightarrow> Some v | DR \<Rightarrow> zdr | KD \<Rightarrow> kdp | RH \<Rightarrow> rho
                                   | LD \<Rightarrow> ldr | T \<Rightarrow> Tv) \<noteq> None then 1 else 0),
          shape v, prod_list (shape v))"
  unfolding populate_vars_def Let_def
  by (auto simp add: fun_eq_iff split: key.splits)

lemma str_in_hybrid_linear [simp]: "\<not> str_in ''hybrid'' ''linear''"
  by simp

lemma str_in_linear_linear [simp]: "str_in ''linear'' ''linear''"
  by simp

lemma species_test_no_pol:
  "species_test ext fhc_vars weights radar_data sets varlist ws False trap_flag use_temp method sz c test =
   species_test ext fhc_vars weights radar_data sets varlist 0 False trap_flag use_temp method sz c test"
  by (simp add: species_test_def Let_def)

lemma get_test_list_no_pol:
  "get_test_list ext fhc_vars weights radar_data sets varlist ws False trap_flag use_temp method sz =
   get_test_list ext fhc_vars weights radar_data sets varlist 0 False trap_flag use_temp method sz"
proof -
  have "species_test ext fhc_vars weights radar_data sets varlist ws False trap_flag use_temp method sz =
        species_test ext fhc_vars weights radar_data sets varlist 0 False trap_flag use_temp method sz"
    by (intro ext) (rule species_test_no_pol)
  then show ?thesis by (simp add: get_test_list_def)
qed

lemma argmax_from_bound: "mi < i \<Longrightarrow> argmax_from mp mi i xs < i + length xs"
proof (induction xs arbitrary: mp mi i)
  case Nil
  then show ?case by simp
next
  case (Cons x xs)
  have a: "argmax_from x i (Suc i) xs < Suc i + length xs"
    by (rule Cons.IH) simp
  have b: "argmax_from mp mi (Suc i) xs < Suc i + length xs"
    by (rule Cons.IH) (use Cons.prems in simp)
  show ?case using a b Cons.prems by simp
qed

lemma argmax_axis0_bound:
  assumes "argmax_axis0 rows = Inr am"
  shows "\<forall>k \<in> set am. k < length rows"
proof (cases rows)
  case Nil
  with assms show ?thesis by (simp add: argmax_axis0_def)
next
  case (Cons r rs)
  have "argmax_from (r ! j) 0 1 (map (\<lambda>row. row ! j) rs) < length rows" for j
    using argmax_from_bound [of 0 1 "r ! j" "map (\<lambda>row. row ! j) rs"] Cons by simp
  with assms Cons show ?thesis by (auto simp add: argmax_axis0_def)
qed

lemma reshape_rows_length: "length (reshape_rows flat (d # rest)) = d"
  by (simp add: reshape_rows_def)

lemma int32_id: "- (2 ^ 31) \<le> n \<Longrightarrow> n < 2 ^ 31 \<Longrightarrow> int32 n = n"
  by (simp add: int32_def)

lemma target_dims_head:
  assumes "target_dims n shp = Inr dims" and "0 \<le> n" and "n < 2 ^ 31"
  shows "\<exists>rest. dims = n # rest"
  using assms by (auto simp add: target_dims_def int32_id split: if_splits)

lemma resolve_dims_head:
  assumes "resolve_dims sz (n # rest) = Inr dims" and "0 \<le> n"
  shows "\<exists>rest'. dims = nat n # rest'"
  using assms by (auto simp add: resolve_dims_def Let_def split: if_splits)

lemma bind_err_not_None:
  assumes "\<And>x. f x \<noteq> Inr None"
  shows "bind_err r f \<noteq> Inr None"
  using assms by (cases r) simp_all

lemma never_None_aux:
  assumes "g \<noteq> None" and "\<And>ws vl. bind_err (R ws vl) F \<noteq> Inr None"
  shows "(case g of None \<Rightarrow> Inr None | Some (ws, vl) \<Rightarrow> bind_err (R ws vl) F) \<noteq> Inr None"
  using assms by (cases g) auto

lemma csu_fhc_summer_unfold:
  assumes "dz_arg args = Some v"
  shows "csu_fhc_summer ext args =
     (let use_temp = (if T_arg args = None then False else use_temp_arg args);
          var = (\<lambda>k. case k of DZ \<Rightarrow> Some v | DR \<Rightarrow> zdr_arg args | KD \<Rightarrow> kdp_arg args
                       | RH \<Rightarrow> rho_arg args | LD \<Rightarrow> ldr_arg args | T \<Rightarrow> T_arg args);
          radar_data = (\<lambda>k. map_option (\<lambda>v. map (round_val binary32) (data v)) (var k));
          fhc_vars0 = (\<lambda>k. if var k \<noteq> None then 1 else 0);
          shp = shape v;
          sz = prod_list (shape v);
          sets = convert_mbf_sets (get_mbf_sets_summer ext use_temp (plot_flag_arg args)
                   (n_types_arg args) (temp_factor_arg args) (band_arg args) (verbose_arg args));
          pol_flag = get_pol_flag fhc_vars0;
          trap_flag = (if use_trap_arg args then True else False);
          fhc_vars = (if use_temp then fhc_vars0 else fhc_vars0 (T := 0))
      in case get_weight_sum fhc_vars (weights_arg args) (method_arg args) of
          None \<Rightarrow> Inr None
        | Some (weight_sum, varlist) \<Rightarrow>
            bind_err (get_test_list ext fhc_vars (weights_arg args) radar_data sets varlist
                        weight_sum pol_flag trap_flag use_temp (method_arg args) sz)
              (\<lambda>test_list.
            bind_err (np_array test_list) (\<lambda>mu.
            bind_err (if verbose_arg args \<and> mu = [] then Inl ValueError else Inr ()) (\<lambda>_.
            bind_err (target_dims (n_types_arg args) shp) (\<lambda>dims.
            bind_err (resolve_dims (length mu) dims) (\<lambda>dims.
            if return_scores_arg args
            then Inr (Some (Scores dims (reshape_rows mu dims)))
            else bind_err (argmax_axis0 (reshape_rows mu dims)) (\<lambda>am.
                 Inr (Some (Hid (tl dims) (map Suc am))))))))))"
  unfolding csu_fhc_summer_def assms populate_vars_Some Let_def
  by (simp only: option.distinct if_False bind_err_Inr prod.case)

lemma recognised_not_None:
  assumes "dz_arg args = Some v"
    and "str_in ''hybrid'' (method_arg args) \<or> str_in ''linear'' (method_arg args)"
  shows "csu_fhc_summer ext args \<noteq> Inr None"
proof -
  have ws: "get_weight_sum fv (weights_arg args) (method_arg args) \<noteq> None" for fv
    using assms(2) by (auto simp add: get_weight_sum_def Let_def)
  have tail: "bind_err r
              (\<lambda>test_list.
            bind_err (np_array test_list) (\<lambda>mu.
            bind_err (if verbose_arg args \<and> mu = [] then Inl ValueError else Inr ()) (\<lambda>_.
            bind_err (target_dims (n_types_arg args) shp) (\<lambda>dims.
            bind_err (resolve_dims (length mu) dims) (\<lambda>dims.
            if return_scores_arg args
            then Inr (Some (Scores dims (reshape_rows mu dims)))
            else bind_err (argmax_axis0 (reshape_rows mu dims)) (\<lambda>am.
                 Inr (Some (Hid (tl dims) (map Suc am))))))))) \<noteq> Inr None"
    for r shp
    by (intro bind_err_not_None) (simp add: bind_err_not_None)
  show ?thesis
    unfolding csu_fhc_summer_unfold [OF assms(1)] Let_def
    by (rule never_None_aux) (rule ws, rule tail)
qed

lemma example_beta:
  "hid_beta binary32 (pow_with binary32) [Fin 1, Fin 3] 2 1 1 = [Fin 1, Fin (1 / 2)]"
  "hid_beta binary32 (pow_with binary32) [Fin 1, Fin 3] 2 1 3 = [Fin (1 / 2), Fin 1]"
  by (simp_all add: hid_beta_def hid_beta_elem_def fl_sub_def fl_div_def fl_add_def
      pow_with_def c99_pow_def pow_real_def binary32_values binary32_more)

lemma upt2: "[0 ..< 2] = [0, 1]"
  by (simp add: upt_rec)

lemma example_test_list:
  assumes "str_in ''hybrid'' meth"
  shows "get_test_list example_ext fv w
           (\<lambda>k. map_option (\<lambda>v. map (round_val binary32) (data v))
                  (case k of DZ \<Rightarrow> Some \<lparr>shape = [2], data = [Fin 1, Fin 3]\<rparr> | _ \<Rightarrow> None))
           (convert_mbf_sets (get_mbf_sets_summer example_ext ut pf n tf bd vb))
           vl ws False tf' False meth sz =
         (if fv DZ \<noteq> 0
          then Inr [Vec [Fin 1, Fin (1 / 2)], Vec [Fin (1 / 2), Fin 1]]
          else Inl UnboundLocalError)"
  using assms
  by (simp add: get_test_list_def species_test_def Let_def example_ext_def example_mbf_def
      convert_mbf_sets_def upt2 assign_test_def beta_of_def idx_def example_beta binary32_values binary32_more)

lemma example_run_hybrid:
  assumes "str_in ''hybrid'' meth"
  shows "csu_fhc_summer example_ext (example_args meth) = Inr (Some (Hid [2] [1, 2]))"
proof -
  have dz: "dz_arg (example_args meth) = Some \<lparr>shape = [2], data = [Fin 1, Fin 3]\<rparr>"
    by (simp add: example_args_def)
  have var: "(\<lambda>k. case k of DZ \<Rightarrow> Some \<lparr>shape = [2], data = [Fin 1, Fin 3]\<rparr>
                 | DR \<Rightarrow> zdr_arg (example_args meth) | KD \<Rightarrow> kdp_arg (example_args meth)
                 | RH \<Rightarrow> rho_arg (example_args meth) | LD \<Rightarrow> ldr_arg (example_args meth)
                 | T \<Rightarrow> T_arg (example_args meth)) =
             (\<lambda>k. case k of DZ \<Rightarrow> Some \<lparr>shape = [2], data = [Fin 1, Fin 3]\<rparr> | _ \<Rightarrow> None)"
    by (auto simp add: fun_eq_iff example_args_def split: key.splits)
  have ws: "get_weight_sum fv (weights_arg (example_args meth)) (method_arg (example_args meth)) =
            Some (sum_list (map (\<lambda>k. real (fv k) * DEFAULT_WEIGHTS k) [DR, KD, RH, LD]),
                  [DR, KD, RH, LD])" for fv
    using assms by (simp add: get_weight_sum_def example_args_def Let_def)
  show ?thesis
    unfolding csu_fhc_summer_unfold [OF dz] Let_def var ws
    apply (simp only: option.case prod.case)
    apply (simp add: example_args_def get_pol_flag_def example_test_list [OF assms]
        np_array_def target_dims_def int32_def resolve_dims_def reshape_rows_def
        argmax_axis0_def upt2 Let_def)
    done
qed

lemma example_run_dims:
  assumes "str_in ''hybrid'' meth" and "n = 2 \<or> n = - 1"
  shows "csu_fhc_summer example_ext
           ((example_args meth)\<lparr>n_types_arg := n, return_scores_arg := ret\<rparr>) =
         (if ret
          then Inr (Some (Scores [2, 2] [[Fin 1, Fin (1 / 2)], [Fin (1 / 2), Fin 1]]))
          else Inr (Some (Hid [2] [1, 2])))"
proof -
  let ?args = "(example_args meth)\<lparr>n_types_arg := n, return_scores_arg := ret\<rparr>"
  have dz: "dz_arg ?args = Some \<lparr>shape = [2], data = [Fin 1, Fin 3]\<rparr>"
    by (simp add: example_args_def)
  have var: "(\<lambda>k. case k of DZ \<Rightarrow> Some \<lparr>shape = [2], data = [Fin 1, Fin 3]\<rparr>
                 | DR \<Rightarrow> zdr_arg ?args | KD \<Rightarrow> kdp_arg ?args
                 | RH \<Rightarrow> rho_arg ?args | LD \<Rightarrow> ldr_arg ?args
                 | T \<Rightarrow> T_arg ?args) =
             (\<lambda>k. case k of DZ \<Rightarrow> Some \<lparr>shape = [2], data = [Fin 1, Fin 3]\<rparr> | _ \<Rightarrow> None)"
    by (auto simp add: fun_eq_iff example_args_def split: key.splits)
  have ws: "get_weight_sum fv (weights_arg ?args) (method_arg ?args) =
            Some (sum_list (map (\<lambda>k. real (fv k) * DEFAULT_WEIGHTS k) [DR, KD, RH, LD]),
                  [DR, KD, RH, LD])" for fv
    using assms(1) by (simp add: get_weight_sum_def example_args_def Let_def)
  have td: "target_dims n [2] = Inr [n, 2]"
    using assms(2) by (auto simp add: target_dims_def int32_def)
  have rd: "resolve_dims (Suc (Suc (Suc (Suc 0)))) [n, 2] = Inr [2, 2]"
    using assms(2) by (auto simp add: resolve_dims_def Let_def)
  show ?thesis
    unfolding csu_fhc_summer_unfold [OF dz] Let_def var ws
    apply (simp only: option.case prod.case)
    apply (simp add: example_args_def get_pol_flag_def example_test_list [OF assms(1)]
        np_array_def td rd reshape_rows_def argmax_axis0_def upt2 Let_def)
    done
qed

lemma return_scores_upd_fields:
  "use_temp_arg (args\<lparr>return_scores_arg := r\<rparr>) = use_temp_arg args"
  "weights_arg (args\<lparr>return_scores_arg := r\<rparr>) = weights_arg args"
  "method_arg (args\<lparr>return_scores_arg := r\<rparr>) = method_arg args"
  "dz_arg (args\<lparr>return_scores_arg := r\<rparr>) = dz_arg args"
  "zdr_arg (args\<lparr>return_scores_arg := r\<rparr>) = zdr_arg args"
  "ldr_arg (args\<lparr>return_scores_arg := r\<rparr>) = ldr_arg args"
  "kdp_arg (args\<lparr>return_scores_arg := r\<rparr>) = kdp_arg args"
  "rho_arg (args\<lparr>return_scores_arg := r\<rparr>) = rho_arg args"
  "T_arg (args\<lparr>return_scores_arg := r\<rparr>) = T_arg args"
  "verbose_arg (args\<lparr>return_scores_arg := r\<rparr>) = verbose_arg args"
  "plot_flag_arg (args\<lparr>return_scores_arg := r\<rparr>) = plot_flag_arg args"
  "use_trap_arg (args\<lparr>return_scores_arg := r\<rparr>) = use_trap_arg args"
  "n_types_arg (args\<lparr>return_scores_arg := r\<rparr>) = n_types_arg args"
  "temp_factor_arg (args\<lparr>return_scores_arg := r\<rparr>) = temp_factor_arg args"
  "band_arg (args\<lparr>return_scores_arg := r\<rparr>) = band_arg args"
  "return_scores_arg (args\<lparr>return_scores_arg := r\<rparr>) = r"
  by simp_all

lemma Hid_aux:
  assumes "(case g of
              None \<Rightarrow> Inr None
            | Some (ws, vl) \<Rightarrow>
                bind_err (R ws vl) (\<lambda>test_list.
                bind_err (A test_list) (\<lambda>mu.
                bind_err (B mu) (\<lambda>_.
                bind_err C (\<lambda>dims.
                bind_err (D mu dims) (\<lambda>dims.
                if False then Inr (Some (Scores dims (reshape_rows mu dims)))
                else bind_err (argmax_axis0 (reshape_rows mu dims)) (\<lambda>am.
                     Inr (Some (Hid (tl dims) (map Suc am)))))))))) =
           Inr (Some (Hid shp hid))"
  shows "\<exists>mu dims0 dims am.
           C = Inr dims0 \<and> D mu dims0 = Inr dims \<and>
           (case g of
              None \<Rightarrow> Inr None
            | Some (ws, vl) \<Rightarrow>
                bind_err (R ws vl) (\<lambda>test_list.
                bind_err (A test_list) (\<lambda>mu.
                bind_err (B mu) (\<lambda>_.
                bind_err C (\<lambda>dims.
                bind_err (D mu dims) (\<lambda>dims.
                if True then Inr (Some (Scores dims (reshape_rows mu dims)))
                else bind_err (argmax_axis0 (reshape_rows mu dims)) (\<lambda>am.
                     Inr (Some (Hid (tl dims) (map Suc am)))))))))) =
             Inr (Some (Scores dims (reshape_rows mu dims))) \<and>
           argmax_axis0 (reshape_rows mu dims) = Inr am \<and> hid = map Suc am \<and>
           shp = tl dims"
  using assms
  by (auto simp add: bind_err_eq_Inr split: option.splits prod.splits if_splits)

lemma test_loop_unbound:
  assumes "body c None = Inr None"
  shows "test_loop body (c # cs) None test_list = Inl UnboundLocalError"
  using assms by simp


subsection \<open>Facts about the winter blend\<close>

lemma mask_assign_ok:
  "length msk = length target \<Longrightarrow> length source = length target \<Longrightarrow>
   mask_assign msk target source =
     Inr (map (\<lambda>i. if msk ! i then source ! i else target ! i) [0 ..< length target])"
  by (simp add: mask_assign_def)

lemma mask_fill_ok:
  "length msk = length target \<Longrightarrow>
   mask_fill msk target v = Inr (map (\<lambda>i. if msk ! i then v else target ! i) [0 ..< length target])"
  by (simp add: mask_fill_def)

lemma blend_ok:
  assumes "length meltlev_arr = length fh_arr" "length fhwarm = length fh_arr"
    "length fhcold = length fh_arr"
  shows "blend fh_arr meltlev_arr fhwarm fhcold scan_type =
           Inr (map (\<lambda>i. blend_spec (fh_arr ! i) (meltlev_arr ! i) (fhwarm ! i) (fhcold ! i) scan_type)
                  [0 ..< length fh_arr])"
  using assms
  by (auto simp add: blend_def Let_def mask_assign_ok mask_fill_ok blend_spec_def)

lemma argmax_axis0_ok:
  "rows \<noteq> [] \<Longrightarrow> \<exists>am. argmax_axis0 rows = Inr am \<and> length am = length (hd rows)"
  by (cases rows) (simp_all add: argmax_axis0_def)

lemma warm_remap_length: "length (warm_remap am) = length am"
  by (simp add: warm_remap_def)

lemma run_winter_ok:
  assumes wf: "wf_winter st ml scores_warm scores_cold"
  shows "\<exists>am_warm am_cold.
           argmax_axis0 scores_warm = Inr am_warm \<and> argmax_axis0 scores_cold = Inr am_cold \<and>
           length am_cold = length (st (fh ml)) \<and>
           run_winter st ml scores_warm scores_cold scan_type ret =
             (let st' = st (fh ml := map (\<lambda>v. if v = 2 then 5 else v) (st (fh ml)));
                  fhwarm = warm_remap am_warm;
                  fhcold = map (\<lambda>k. int k + 1) am_cold;
                  winter_hca = map (\<lambda>i. blend_spec (st' (fh ml) ! i) (st' (meltlev ml) ! i)
                                          (fhwarm ! i) (fhcold ! i) scan_type)
                                 [0 ..< length (st (fh ml))]
              in if ret
                 then (Inr (Hca_Scores winter_hca
                         \<lparr>ML_scores = scores_ML ml, warm_scores = scores_warm,
                          cold_scores = scores_cold\<rparr>
                         \<lparr>ML_hca = fh ml, warm_hca = fhwarm, cold_hca = fhcold\<rparr>), st')
                 else (Inr (Hca winter_hca), st'))"
proof -
  define st' where "st' = st (fh ml := map (\<lambda>v. if v = 2 then 5 else v) (st (fh ml)))"
  from wf have ne: "scores_warm \<noteq> []" "scores_cold \<noteq> []"
    and lw: "length (hd scores_warm) = length (st (fh ml))"
    and lc: "length (hd scores_cold) = length (st (fh ml))"
    and lm: "length (st (meltlev ml)) = length (st (fh ml))"
    by (simp_all add: wf_winter_def)
  obtain am_warm where aw: "argmax_axis0 scores_warm = Inr am_warm"
    and law: "length am_warm = length (hd scores_warm)"
    using argmax_axis0_ok [OF ne(1)] by blast
  obtain am_cold where ac: "argmax_axis0 scores_cold = Inr am_cold"
    and lac: "length am_cold = length (hd scores_cold)"
    using argmax_axis0_ok [OF ne(2)] by blast
  have l1: "length (st' (fh ml)) = length (st (fh ml))" by (simp add: st'_def)
  have l2: "length (st' (meltlev ml)) = length (st' (fh ml))"
    using lm by (simp add: st'_def)
  have l3: "length (warm_remap am_warm) = length (st' (fh ml))"
    using law lw l1 by (simp add: warm_remap_length)
  have l4: "length (map (\<lambda>k. int k + 1) am_cold) = length (st' (fh ml))"
    using lac lc l1 by simp
  have b: "blend (st' (fh ml)) (st' (meltlev ml)) (warm_remap am_warm)
             (map (\<lambda>k. int k + 1) am_cold) scan_type =
           Inr (map (\<lambda>i. blend_spec (st' (fh ml) ! i) (st' (meltlev ml) ! i)
                     (warm_remap am_warm ! i) (map (\<lambda>k. int k + 1) am_cold ! i) scan_type)
                  [0 ..< length (st (fh ml))])"
    using blend_ok [OF l2 l3 l4, of scan_type] l1 by simp
  have "run_winter st ml scores_warm scores_cold scan_type ret =
             (let st' = st (fh ml := map (\<lambda>v. if v = 2 then 5 else v) (st (fh ml)));
                  fhwarm = warm_remap am_warm;
                  fhcold = map (\<lambda>k. int k + 1) am_cold;
                  winter_hca = map (\<lambda>i. blend_spec (st' (fh ml) ! i) (st' (meltlev ml) ! i)
                                          (fhwarm ! i) (fhcold ! i) scan_type)
                                 [0 ..< length (st (fh ml))]
              in if ret
                 then (Inr (Hca_Scores winter_hca
                         \<lparr>ML_scores = scores_ML ml, warm_scores = scores_warm,
                          cold_scores = scores_cold\<rparr>
                         \<lparr>ML_hca = fh ml, warm_hca = fhwarm, cold_hca = fhcold\<rparr>), st')
                 else (Inr (Hca winter_hca), st'))"
    unfolding run_winter_def aw ac Let_def sum.case st'_def [symmetric] b by simp
  moreover have "length am_cold = length (st (fh ml))" using lac lc by simp
  ultimately show ?thesis using aw ac by blast
qed

lemma run_winter_store:
  assumes "fst (run_winter st ml scores_warm scores_cold scan_type ret) = Inr r"
  shows "snd (run_winter st ml scores_warm scores_cold scan_type ret) =
           st (fh ml := map (\<lambda>v. if v = 2 then 5 else v) (st (fh ml)))"
  using assms by (auto simp add: run_winter_def Let_def split: sum.splits if_splits)

lemma run_winter_ML:
  assumes "fst (run_winter st ml scores_warm scores_cold scan_type True) = Inr r"
  shows "case r of Hca w \<Rightarrow> False | Hca_Scores w sc h \<Rightarrow> ML_hca h = fh ml"
  using assms by (auto simp add: run_winter_def Let_def split: sum.splits)

lemma example_wf: "wf_winter example_store example_melt example_warm example_cold"
  by (simp add: wf_winter_def example_store_def example_melt_def example_warm_def
      example_cold_def)

lemma upt3: "[0 ..< 3] = [0, 1, 2]"
  by (simp add: upt_rec)

lemma example_run:
  "run_winter example_store example_melt example_warm example_cold ''ppi'' True =
     (Inr (Hca_Scores [- 1, 2, 5]
        \<lparr>ML_scores = (), warm_scores = example_warm, cold_scores = example_cold\<rparr>
        \<lparr>ML_hca = 1, warm_hca = [7, 6, 6], cold_hca = [3, 2, 1]\<rparr>),
      example_store (1 := [0, 1, 5]))"
  by (simp add: run_winter_def argmax_axis0_def blend_def mask_assign_def mask_fill_def
      warm_remap_def Let_def example_store_def example_melt_def example_warm_def
      example_cold_def upt3)


section \<open>Claims about \<open>hid_beta\<close>\<close>




text \<open>
  C8, as stated: for every \<open>a \<noteq> 0\<close>, \<open>b\<close>, \<open>m\<close> the score lies in \<open>(0, 1]\<close> and is 1 at
  the centre. With \<open>b = 0\<close> the source computes \<open>0 ** 0 = 1\<close> at the centre and returns
  \<open>1/2\<close>, not 1, on an array as on Python floats. And the score reaches 0: on a
  \<open>float32\<close> array the element 100 with \<open>a = 1\<close>, \<open>b = 10\<close>, \<open>m = 0\<close> has the power
  \<open>10000 ** 10\<close>, which overflows to \<open>inf\<close>, and the score \<open>1/(1 + inf) = 0\<close>.
\<close>

theorem C8_hid_beta_peak_counterexample:
  "hid_beta binary64 (pow_with binary64) [Fin 3] 2 0 3 = [Fin (1 / 2)] \<and>
   hid_beta_float binary64 (pow_with binary64) (Fin 3) 2 0 3 = Inr (PyFloat (Fin (1 / 2))) \<and>
   Fin (1 / 2) \<noteq> Fin 1 \<and>
   hid_beta binary32 (pow_with binary32) [Fin 100] 1 10 0 = [Fin 0]"
proof -
  have nz: "(2::real) \<noteq> 0" by simp
  have a: "hid_beta binary64 (pow_with binary64) [Fin 3] 2 0 3 = [Fin (1 / 2)]"
    using hid_beta_elem_centre [OF binary64_ieee pow_with_ieee [OF binary64_ieee] nz, of 0 3]
    by (simp add: hid_beta_def)
  have f: "hid_beta_float binary64 (pow_with binary64) (Fin 3) 2 0 3 =
             Inr (PyFloat (Fin (1 / 2)))"
    using hid_beta_float_centre [OF binary64_ieee nz, of "pow_with binary64" 3 0] by simp
  have l1: "\<lfloor>log 2 (100::real)\<rfloor> = 6" by (rule floor_log2_eq) simp_all
  have l2: "\<lfloor>log 2 (10000::real)\<rfloor> = 13" by (rule floor_log2_eq) simp_all
  have l3: "\<lfloor>log 2 (10000000000000000000000000000000000000000::real)\<rfloor> = 132"
    by (rule floor_log2_eq) simp_all
  have r1: "binary32 100 = Fin 100"
    by (simp add: binary32_def binary_round_def round_to_place_def last_place_def
        round_at_def round_half_even_def l1 Let_def)
  have r2: "binary32 10000 = Fin 10000"
    by (simp add: binary32_def binary_round_def round_to_place_def last_place_def
        round_at_def round_half_even_def l2 Let_def)
  have r3: "binary32 10000000000000000000000000000000000000000 = PInf"
    by (simp add: binary32_def binary_round_def round_to_place_def last_place_def
        round_at_def round_half_even_def l3 Let_def)
  have b: "hid_beta binary32 (pow_with binary32) [Fin 100] 1 10 0 = [Fin 0]"
    by (simp add: hid_beta_def hid_beta_elem_def fl_sub_def fl_div_def fl_add_def
        pow_with_def c99_pow_def pow_real_def r1 r2 r3 binary32_values)
  from a f b show ?thesis by simp
qed

text \<open>
  C8, amended: for \<open>a \<noteq> 0\<close> and every finite \<open>x\<close>, the score \<open>hid_beta(x, a, b, m)\<close> is
  a finite number in the closed interval \<open>[0, 1]\<close>, at every element of a numpy array
  and for every call on Python floats that returns (in floating point the score reaches
  0.0 where a power is infinite), and \<open>hid_beta(m, a, b, m) = 1\<close> whenever \<open>b > 0\<close>. (This
  holds in every float format with the properties \<open>ieee_rounding\<close> and \<open>ieee_pow\<close>.)
\<close>

theorem C8_hid_beta_range:
  assumes "ieee_rounding rnd" and "ieee_pow pw" and "a \<noteq> 0"
  shows "(\<forall>i < length x_arr. \<forall>x. x_arr ! i = Fin x \<longrightarrow>
            (\<exists>v. hid_beta rnd pw x_arr a b m ! i = Fin v \<and> 0 \<le> v \<and> v \<le> 1)) \<and>
         (\<forall>x r. hid_beta_float rnd pw (Fin x) a b m = Inr r \<longrightarrow>
            (\<exists>v. r = PyFloat (Fin v) \<and> 0 \<le> v \<and> v \<le> 1)) \<and>
         (0 < b \<longrightarrow> hid_beta rnd pw [Fin m] a b m = [Fin 1] \<and>
            hid_beta_float rnd pw (Fin m) a b m = Inr (PyFloat (Fin 1)))"
proof -
  have "\<exists>v. hid_beta rnd pw x_arr a b m ! i = Fin v \<and> 0 \<le> v \<and> v \<le> 1"
    if "i < length x_arr" "x_arr ! i = Fin x" for i x
    using that hid_beta_elem_range [OF assms, of b m x] by (simp add: hid_beta_def)
  moreover have "\<exists>v. r = PyFloat (Fin v) \<and> 0 \<le> v \<and> v \<le> 1"
    if "hid_beta_float rnd pw (Fin x) a b m = Inr r" for x r
    using hid_beta_float_elem [OF assms(1,2) that] hid_beta_elem_range [OF assms, of b m x]
    by auto
  moreover have "0 < b \<longrightarrow> hid_beta rnd pw [Fin m] a b m = [Fin 1]"
    using hid_beta_elem_centre [OF assms, of b m] by (simp add: hid_beta_def)
  moreover have "0 < b \<longrightarrow> hid_beta_float rnd pw (Fin m) a b m = Inr (PyFloat (Fin 1))"
    using hid_beta_float_centre [OF assms(1,3), of pw m b] by simp
  ultimately show ?thesis by blast
qed

theorem C8_hid_beta_range_witness:
  "ieee_rounding binary32 \<and> ieee_pow (pow_with binary32) \<and> (2::real) \<noteq> 0 \<and>
   (\<exists>v. hid_beta binary32 (pow_with binary32) [Fin 5] 2 1 1 ! 0 = Fin v \<and> 0 \<le> v \<and> v \<le> 1) \<and>
   hid_beta binary32 (pow_with binary32) [Fin 1] 2 1 1 = [Fin 1] \<and>
   hid_beta_float binary32 (pow_with binary32) (Fin 1) 2 1 1 = Inr (PyFloat (Fin 1))"
proof -
  have nz: "(2::real) \<noteq> 0" by simp
  note r = binary32_ieee
  note p = pow_with_ieee [OF binary32_ieee]
  from C8_hid_beta_range [OF r p nz, of "[Fin 5]" 1 1] r p nz show ?thesis by simp
qed

section \<open>Claims about \<open>csu_fhc_summer\<close>\<close>

text \<open>
  C2, as stated: a call in which the sum of the applicable weights is zero returns None
  before any per-species score is computed. The source compares \<open>weight_sum\<close> with None
  only. For the hybrid method with reflectivity alone the weight sum over
  \<open>DR, KD, RH, LD\<close> is zero, and the call returns the category array.
\<close>

theorem C2_zero_weight_sum_counterexample:
  "get_weight_sum (\<lambda>k. if k = DZ then 1 else 0) DEFAULT_WEIGHTS ''hybrid'' =
     Some (0, [DR, KD, RH, LD]) \<and>
   csu_fhc_summer example_ext (example_args ''hybrid'') = Inr (Some (Hid [2] [1, 2])) \<and>
   csu_fhc_summer example_ext (example_args ''hybrid'') \<noteq> Inr None"
proof -
  have h: "str_in ''hybrid'' ''hybrid''" by simp
  show ?thesis
    unfolding example_run_hybrid [OF h]
    by (simp add: get_weight_sum_def Let_def)
qed

text \<open>
  C2, amended: \<open>csu_fhc_summer\<close> does not test the weight sum for zero. A call with
  \<open>dz\<close> present and a method that contains \<open>hybrid\<close> or \<open>linear\<close> never returns None,
  whatever the weight sum is. For the hybrid method with none of \<open>zdr\<close>, \<open>kdp\<close>,
  \<open>rho\<close>, \<open>ldr\<close> passed, the weight sum is zero (before and after \<open>fhc_vars['T']\<close>
  is reset), \<open>pol_flag\<close> is false, and the per-species computation does not depend on
  the weight sum: no division by it takes place.
\<close>

theorem C2_zero_weight_sum:
  assumes dz: "dz_arg args = Some v"
    and meth: "str_in ''hybrid'' (method_arg args) \<or> str_in ''linear'' (method_arg args)"
  shows "csu_fhc_summer ext args \<noteq> Inr None \<and>
         (str_in ''hybrid'' (method_arg args) \<and> zdr_arg args = None \<and> kdp_arg args = None \<and>
          rho_arg args = None \<and> ldr_arg args = None \<longrightarrow>
            (\<exists>radar_data fhc_vars shp sz.
               populate_vars (dz_arg args) (zdr_arg args) (kdp_arg args) (rho_arg args)
                 (ldr_arg args) (T_arg args) = Inr (radar_data, fhc_vars, shp, sz) \<and>
               get_pol_flag fhc_vars = False \<and>
               get_weight_sum fhc_vars (weights_arg args) (method_arg args) =
                 Some (0, [DR, KD, RH, LD]) \<and>
               get_weight_sum (fhc_vars (T := 0)) (weights_arg args) (method_arg args) =
                 Some (0, [DR, KD, RH, LD]) \<and>
               (\<forall>fv sets varlist weight_sum trap_flag use_temp sz'.
                  get_test_list ext fv (weights_arg args) radar_data sets varlist weight_sum
                    (get_pol_flag fhc_vars) trap_flag use_temp (method_arg args) sz' =
                  get_test_list ext fv (weights_arg args) radar_data sets varlist 0
                    (get_pol_flag fhc_vars) trap_flag use_temp (method_arg args) sz')))"
proof -
  have a: "csu_fhc_summer ext args \<noteq> Inr None"
    using dz meth by (rule recognised_not_None)
  have b: "\<exists>radar_data fhc_vars shp sz.
               populate_vars (dz_arg args) (zdr_arg args) (kdp_arg args) (rho_arg args)
                 (ldr_arg args) (T_arg args) = Inr (radar_data, fhc_vars, shp, sz) \<and>
               get_pol_flag fhc_vars = False \<and>
               get_weight_sum fhc_vars (weights_arg args) (method_arg args) =
                 Some (0, [DR, KD, RH, LD]) \<and>
               get_weight_sum (fhc_vars (T := 0)) (weights_arg args) (method_arg args) =
                 Some (0, [DR, KD, RH, LD]) \<and>
               (\<forall>fv sets varlist weight_sum trap_flag use_temp sz'.
                  get_test_list ext fv (weights_arg args) radar_data sets varlist weight_sum
                    (get_pol_flag fhc_vars) trap_flag use_temp (method_arg args) sz' =
                  get_test_list ext fv (weights_arg args) radar_data sets varlist 0
                    (get_pol_flag fhc_vars) trap_flag use_temp (method_arg args) sz')"
    if h: "str_in ''hybrid'' (method_arg args)"
      and np: "zdr_arg args = None" "kdp_arg args = None" "rho_arg args = None"
        "ldr_arg args = None"
  proof -
    let ?var = "\<lambda>k. case k of DZ \<Rightarrow> Some v | DR \<Rightarrow> None | KD \<Rightarrow> None | RH \<Rightarrow> None
                       | LD \<Rightarrow> None | T \<Rightarrow> T_arg args"
    let ?rd = "\<lambda>k. map_option (\<lambda>v. map (round_val binary32) (data v)) (?var k)"
    let ?fv = "\<lambda>k. if ?var k \<noteq> None then (1::nat) else 0"
    have pv: "populate_vars (dz_arg args) (zdr_arg args) (kdp_arg args) (rho_arg args)
                 (ldr_arg args) (T_arg args) = Inr (?rd, ?fv, shape v, prod_list (shape v))"
      unfolding dz np by (rule populate_vars_Some)
    have pf: "get_pol_flag ?fv = False" by (simp add: get_pol_flag_def)
    have w1: "get_weight_sum ?fv (weights_arg args) (method_arg args) =
                 Some (0, [DR, KD, RH, LD])"
      using h by (simp add: get_weight_sum_def Let_def)
    have w2: "get_weight_sum (?fv (T := 0)) (weights_arg args) (method_arg args) =
                 Some (0, [DR, KD, RH, LD])"
      using h by (simp add: get_weight_sum_def Let_def)
    have ind: "\<forall>fv sets varlist weight_sum trap_flag use_temp sz'.
                  get_test_list ext fv (weights_arg args) ?rd sets varlist weight_sum
                    (get_pol_flag ?fv) trap_flag use_temp (method_arg args) sz' =
                  get_test_list ext fv (weights_arg args) ?rd sets varlist 0
                    (get_pol_flag ?fv) trap_flag use_temp (method_arg args) sz'"
      unfolding pf using get_test_list_no_pol by blast
    from pv pf w1 w2 ind show ?thesis by blast
  qed
  from a b show ?thesis by blast
qed

theorem C2_zero_weight_sum_witness:
  "dz_arg (example_args ''hybrid'') = Some \<lparr>shape = [2], data = [Fin 1, Fin 3]\<rparr> \<and>
   str_in ''hybrid'' (method_arg (example_args ''hybrid'')) \<and>
   zdr_arg (example_args ''hybrid'') = None \<and> kdp_arg (example_args ''hybrid'') = None \<and>
   rho_arg (example_args ''hybrid'') = None \<and> ldr_arg (example_args ''hybrid'') = None \<and>
   csu_fhc_summer example_ext (example_args ''hybrid'') \<noteq> Inr None \<and>
   (\<exists>radar_data fhc_vars shp sz.
      populate_vars (dz_arg (example_args ''hybrid'')) (zdr_arg (example_args ''hybrid''))
        (kdp_arg (example_args ''hybrid'')) (rho_arg (example_args ''hybrid''))
        (ldr_arg (example_args ''hybrid'')) (T_arg (example_args ''hybrid'')) =
        Inr (radar_data, fhc_vars, shp, sz) \<and>
      get_pol_flag fhc_vars = False \<and>
      get_weight_sum fhc_vars (weights_arg (example_args ''hybrid''))
        (method_arg (example_args ''hybrid'')) = Some (0, [DR, KD, RH, LD]))"
proof -
  have dz: "dz_arg (example_args ''hybrid'') = Some \<lparr>shape = [2], data = [Fin 1, Fin 3]\<rparr>"
    by (simp add: example_args_def)
  have m: "str_in ''hybrid'' (method_arg (example_args ''hybrid'')) \<or>
           str_in ''linear'' (method_arg (example_args ''hybrid''))"
    by (simp add: example_args_def)
  have rest: "str_in ''hybrid'' (method_arg (example_args ''hybrid'')) \<and>
   zdr_arg (example_args ''hybrid'') = None \<and> kdp_arg (example_args ''hybrid'') = None \<and>
   rho_arg (example_args ''hybrid'') = None \<and> ldr_arg (example_args ''hybrid'') = None"
    by (simp add: example_args_def)
  from C2_zero_weight_sum [OF dz m, of example_ext] dz rest show ?thesis by blast
qed

text \<open>
  C6, as stated: every method string other than \<open>linear\<close> and \<open>hybrid\<close> makes
  \<open>csu_fhc_summer\<close> return None. The source tests \<open>'hybrid' in method\<close> and
  \<open>'linear' in method\<close>, which are substring tests: the method \<open>hybrid_v2\<close> is
  neither of the two strings and the call returns the category array.
\<close>

theorem C6_unknown_method_counterexample:
  "''hybrid_v2'' \<noteq> ''linear'' \<and> ''hybrid_v2'' \<noteq> ''hybrid'' \<and>
   csu_fhc_summer example_ext (example_args ''hybrid_v2'') = Inr (Some (Hid [2] [1, 2])) \<and>
   csu_fhc_summer example_ext (example_args ''hybrid_v2'') \<noteq> Inr None"
proof -
  have h: "str_in ''hybrid'' ''hybrid_v2''" by simp
  show ?thesis unfolding example_run_hybrid [OF h] by simp
qed

text \<open>
  C6, amended: for every method string that contains neither \<open>hybrid\<close> nor
  \<open>linear\<close> as a substring, \<open>csu_fhc_summer\<close> returns None, the signal it also gives
  for a missing \<open>dz\<close>, and no partial result.
\<close>

theorem C6_unknown_method:
  assumes "\<not> str_in ''hybrid'' (method_arg args)" and "\<not> str_in ''linear'' (method_arg args)"
  shows "csu_fhc_summer ext args = Inr None"
proof (cases "dz_arg args")
  case None
  then show ?thesis by (simp add: csu_fhc_summer_def)
next
  case (Some v)
  have "get_weight_sum fv (weights_arg args) (method_arg args) = None" for fv
    using assms by (simp add: get_weight_sum_def)
  then show ?thesis
    unfolding csu_fhc_summer_unfold [OF Some] Let_def by simp
qed

theorem C6_unknown_method_witness:
  "\<not> str_in ''hybrid'' (method_arg (example_args ''fuzzy'')) \<and>
   \<not> str_in ''linear'' (method_arg (example_args ''fuzzy'')) \<and>
   csu_fhc_summer example_ext (example_args ''fuzzy'') = Inr None"
proof -
  have a: "\<not> str_in ''hybrid'' (method_arg (example_args ''fuzzy''))"
    by (simp add: example_args_def)
  have b: "\<not> str_in ''linear'' (method_arg (example_args ''fuzzy''))"
    by (simp add: example_args_def)
  from a b C6_unknown_method [OF a b, of example_ext] show ?thesis by blast
qed

text \<open>
  C7: a call to \<open>csu_fhc_summer\<close> without reflectivity (\<open>dz\<close> is None) returns None:
  no exception leaves the function and no partial result is produced, whatever the
  other arguments and the imported functions are.
\<close>

theorem C7_no_reflectivity:
  "csu_fhc_summer ext (args\<lparr>dz_arg := None\<rparr>) = Inr None"
  by (simp add: csu_fhc_summer_def)

theorem C7_no_reflectivity_witness:
  "dz_arg ((example_args ''hybrid'')\<lparr>dz_arg := None\<rparr>) = None \<and>
   csu_fhc_summer example_ext ((example_args ''hybrid'')\<lparr>dz_arg := None\<rparr>) = Inr None"
  using C7_no_reflectivity [of example_ext "example_args ''hybrid''"] by simp

text \<open>
  C9, as stated: every entry of a returned category array lies in \<open>[1, n_types]\<close>, the
  array being the arg-max plus 1 over a score cube with exactly \<open>n_types\<close> species rows.
  The source reshapes the scores to \<open>(n_types, *shp)\<close> after \<open>astype(np.int32)\<close>, and
  \<open>reshape\<close> infers a dimension given as -1: with \<open>n_types = -1\<close> the call on two
  species returns the categories \<open>[1, 2]\<close>, over a cube of two rows.
\<close>

theorem C9_category_range_counterexample:
  "n_types_arg ((example_args ''hybrid'')\<lparr>n_types_arg := - 1\<rparr>) = - 1 \<and>
   csu_fhc_summer example_ext ((example_args ''hybrid'')\<lparr>n_types_arg := - 1\<rparr>) =
     Inr (Some (Hid [2] [1, 2])) \<and>
   \<not> (int 1 \<le> n_types_arg ((example_args ''hybrid'')\<lparr>n_types_arg := - 1\<rparr>)) \<and>
   csu_fhc_summer example_ext
     ((example_args ''hybrid'')\<lparr>n_types_arg := - 1, return_scores_arg := True\<rparr>) =
     Inr (Some (Scores [2, 2] [[Fin 1, Fin (1 / 2)], [Fin (1 / 2), Fin 1]]))"
proof -
  have h: "str_in ''hybrid'' ''hybrid''" by simp
  have e: "(example_args ''hybrid'')\<lparr>n_types_arg := - 1, return_scores_arg := False\<rparr> =
           (example_args ''hybrid'')\<lparr>n_types_arg := - 1\<rparr>"
    by (simp add: example_args_def)
  show ?thesis
    using example_run_dims [OF h, of "- 1" False] example_run_dims [OF h, of "- 1" True]
    unfolding e by simp
qed

text \<open>
  C9, amended: whenever \<open>csu_fhc_summer\<close> returns a category array, the array is the
  arg-max along the species axis plus 1 of the score cube that the same call returns
  under \<open>return_scores\<close>, in the shape of that cube without its first axis, and every
  entry lies in \<open>[1, R]\<close>, where \<open>R\<close> is the number of species rows of that cube;
  \<open>R = n_types\<close> whenever \<open>0 \<le> n_types < 2 ** 31\<close>. (The entries are indices: none of
  them is a \<open>nan\<close>, also where the scores are.)
\<close>

theorem C9_category_range:
  assumes "csu_fhc_summer ext args = Inr (Some (Hid shp hid))"
  shows "\<exists>dims rows am.
           csu_fhc_summer ext (args\<lparr>return_scores_arg := True\<rparr>) =
             Inr (Some (Scores dims rows)) \<and>
           argmax_axis0 rows = Inr am \<and> hid = map Suc am \<and> shp = tl dims \<and>
           (\<forall>e \<in> set hid. 1 \<le> e \<and> e \<le> length rows) \<and>
           (0 \<le> n_types_arg args \<and> n_types_arg args < 2 ^ 31 \<longrightarrow>
              int (length rows) = n_types_arg args)"
proof (cases "dz_arg args")
  case None
  with assms show ?thesis by (simp add: csu_fhc_summer_def)
next
  case (Some v)
  have dz': "dz_arg (args\<lparr>return_scores_arg := True\<rparr>) = Some v"
    using Some by simp
  have nrs: "return_scores_arg args = False"
  proof (rule ccontr)
    assume "return_scores_arg args \<noteq> False"
    then have rs: "return_scores_arg args = True" by simp
    from assms show False
      unfolding csu_fhc_summer_unfold [OF Some] Let_def rs
      by (auto simp add: bind_err_eq_Inr split: option.splits prod.splits)
  qed
  note run = assms [unfolded csu_fhc_summer_unfold [OF Some] Let_def nrs]
  note sc0 = csu_fhc_summer_unfold [OF dz', unfolded Let_def return_scores_upd_fields]
  from Hid_aux [OF run, folded sc0] obtain mu dims0 dims am where
    td: "target_dims (n_types_arg args) (shape v) = Inr dims0"
    and rd: "resolve_dims (length mu) dims0 = Inr dims"
    and sc: "csu_fhc_summer ext (args\<lparr>return_scores_arg := True\<rparr>) =
               Inr (Some (Scores dims (reshape_rows mu dims)))"
    and am: "argmax_axis0 (reshape_rows mu dims) = Inr am" and hid: "hid = map Suc am"
    and shp: "shp = tl dims"
    by blast
  have "\<forall>k \<in> set am. k < length (reshape_rows mu dims)"
    using am by (rule argmax_axis0_bound)
  then have range: "\<forall>e \<in> set hid. 1 \<le> e \<and> e \<le> length (reshape_rows mu dims)"
    unfolding hid by auto
  have rows: "int (length (reshape_rows mu dims)) = n_types_arg args"
    if n: "0 \<le> n_types_arg args" "n_types_arg args < 2 ^ 31"
  proof -
    obtain rest where d0: "dims0 = n_types_arg args # rest"
      using target_dims_head [OF td n] by blast
    obtain rest' where "dims = nat (n_types_arg args) # rest'"
      using resolve_dims_head [OF rd [unfolded d0] n(1)] by blast
    then show ?thesis using n(1) by (simp add: reshape_rows_length)
  qed
  from sc am hid shp range rows show ?thesis by blast
qed

theorem C9_category_range_witness:
  "csu_fhc_summer example_ext (example_args ''hybrid'') = Inr (Some (Hid [2] [1, 2])) \<and>
   n_types_arg (example_args ''hybrid'') = 2 \<and>
   (\<exists>dims rows am.
      csu_fhc_summer example_ext ((example_args ''hybrid'')\<lparr>return_scores_arg := True\<rparr>) =
        Inr (Some (Scores dims rows)) \<and>
      argmax_axis0 rows = Inr am \<and> [1, 2] = map Suc am \<and> [2] = tl dims \<and>
      length rows = 2)"
proof -
  have h: "str_in ''hybrid'' ''hybrid''" by simp
  have r: "csu_fhc_summer example_ext (example_args ''hybrid'') = Inr (Some (Hid [2] [1, 2]))"
    by (rule example_run_hybrid [OF h])
  have n: "n_types_arg (example_args ''hybrid'') = 2" by (simp add: example_args_def)
  from C9_category_range [OF r] obtain dims rows am where
    sc: "csu_fhc_summer example_ext ((example_args ''hybrid'')\<lparr>return_scores_arg := True\<rparr>) =
           Inr (Some (Scores dims rows))"
    and am: "argmax_axis0 rows = Inr am" and hid: "[1, 2] = map Suc am"
    and shp: "[2] = tl dims"
    and len: "0 \<le> n_types_arg (example_args ''hybrid'') \<and>
              n_types_arg (example_args ''hybrid'') < 2 ^ 31 \<longrightarrow>
              int (length rows) = n_types_arg (example_args ''hybrid'')"
    by (elim exE conjE) (rule that)
  from len n have "length rows = 2" by simp
  with r n sc am hid shp show ?thesis by (intro conjI exI)
qed

text \<open>
  C10: a call to \<open>csu_fhc_summer\<close> with \<open>method = 'linear'\<close>, \<open>dz\<close> present and none
  of \<open>zdr\<close>, \<open>kdp\<close>, \<open>rho\<close>, \<open>ldr\<close> passed ends with an UnboundLocalError: the loop
  of \<open>_get_test_list\<close> never assigns \<open>test\<close>, and its first \<open>append\<close> reads the
  unbound name. The loop runs over the species of the provider's reflectivity
  parameters, of which there is at least one.
\<close>

theorem C10_linear_without_pol:
  assumes dz: "dz_arg args = Some v"
    and meth: "method_arg args = ''linear''"
    and np: "zdr_arg args = None" "kdp_arg args = None" "rho_arg args = None"
      "ldr_arg args = None"
    and species: "mbf_m (Zh_set (get_mbf_sets_summer ext
                    (if T_arg args = None then False else use_temp_arg args)
                    (plot_flag_arg args) (n_types_arg args) (temp_factor_arg args)
                    (band_arg args) (verbose_arg args))) \<noteq> []"
  shows "csu_fhc_summer ext args = Inl UnboundLocalError"
proof -
  let ?var = "\<lambda>k. case k of DZ \<Rightarrow> Some v | DR \<Rightarrow> None | KD \<Rightarrow> None | RH \<Rightarrow> None
                     | LD \<Rightarrow> None | T \<Rightarrow> T_arg args"
  let ?fv = "\<lambda>k. if ?var k \<noteq> None then (1::nat) else 0"
  let ?sets = "convert_mbf_sets (get_mbf_sets_summer ext
                    (if T_arg args = None then False else use_temp_arg args)
                    (plot_flag_arg args) (n_types_arg args) (temp_factor_arg args)
                    (band_arg args) (verbose_arg args))"
  have pf: "get_pol_flag ?fv = False" by (simp add: get_pol_flag_def)
  have ws: "get_weight_sum fv w ''linear'' =
              Some (sum_list (map (\<lambda>k. real (fv k) * w k) [DR, KD, RH, LD, T, DZ]),
                    [DR, KD, RH, LD, T, DZ])" for fv w
    by (simp add: get_weight_sum_def Let_def)
  have body: "species_test ext fv w rd sets vl wsum False tf ut ''linear'' sz c None = Inr None"
    for fv w rd sets vl wsum tf ut sz c
    by (simp add: species_test_def Let_def)
  obtain n where n: "length (mbf_m (?sets DZ)) = Suc n"
    using species by (cases "mbf_m (?sets DZ)") (simp_all add: convert_mbf_sets_def)
  have upt: "[0 ..< Suc n] = 0 # [1 ..< Suc n]"
    by (simp add: upt_rec)
  have tl: "get_test_list ext fv w rd ?sets vl wsum False tf ut ''linear'' sz =
              Inl UnboundLocalError" for fv w rd vl wsum tf ut sz
    unfolding get_test_list_def n upt
    by (rule test_loop_unbound) (rule body)
  show ?thesis
    unfolding csu_fhc_summer_unfold [OF dz] Let_def np meth pf ws
    by (simp only: option.case prod.case tl bind_err_Inl)
qed

theorem C10_linear_without_pol_witness:
  "dz_arg (example_args ''linear'') = Some \<lparr>shape = [2], data = [Fin 1, Fin 3]\<rparr> \<and>
   method_arg (example_args ''linear'') = ''linear'' \<and>
   zdr_arg (example_args ''linear'') = None \<and> kdp_arg (example_args ''linear'') = None \<and>
   rho_arg (example_args ''linear'') = None \<and> ldr_arg (example_args ''linear'') = None \<and>
   mbf_m (Zh_set (get_mbf_sets_summer example_ext False False 2 1 ''S'' False)) = [1, 3] \<and>
   csu_fhc_summer example_ext (example_args ''linear'') = Inl UnboundLocalError"
proof -
  have dz: "dz_arg (example_args ''linear'') = Some \<lparr>shape = [2], data = [Fin 1, Fin 3]\<rparr>"
    by (simp add: example_args_def)
  have meth: "method_arg (example_args ''linear'') = ''linear''"
    by (simp add: example_args_def)
  have np: "zdr_arg (example_args ''linear'') = None" "kdp_arg (example_args ''linear'') = None"
    "rho_arg (example_args ''linear'') = None" "ldr_arg (example_args ''linear'') = None"
    by (simp_all add: example_args_def)
  have sp: "mbf_m (Zh_set (get_mbf_sets_summer example_ext
                    (if T_arg (example_args ''linear'') = None then False
                     else use_temp_arg (example_args ''linear''))
                    (plot_flag_arg (example_args ''linear'')) (n_types_arg (example_args ''linear''))
                    (temp_factor_arg (example_args ''linear''))
                    (band_arg (example_args ''linear'')) (verbose_arg (example_args ''linear'')))) \<noteq> []"
    by (simp add: example_ext_def example_mbf_def)
  have m: "mbf_m (Zh_set (get_mbf_sets_summer example_ext False False 2 1 ''S'' False)) = [1, 3]"
    by (simp add: example_ext_def example_mbf_def)
  from C10_linear_without_pol [OF dz meth np sp] dz meth np m show ?thesis by blast
qed

section \<open>Claims about \<open>run_winter\<close>\<close>

text \<open>
  C3: the overrides of the blend are applied in the order regime assignment (warm where
  the regime mask is 0, cold where it is 2, cold at transition bins for a grid scan),
  then wet snow, then no-data. So on inputs that cover the same bins \<open>run_winter\<close>
  returns, at every bin, the value that the precedence \<open>blend_spec\<close> gives (no-data over
  wet snow over regime), and wherever the adjusted melt categorization is 0 or -1 the
  final category is -1, whatever the regime mask and the regime scores are.
\<close>

theorem C3_no_data_wins:
  assumes "wf_winter st ml scores_warm scores_cold"
  shows "\<exists>r am_warm am_cold.
           argmax_axis0 scores_warm = Inr am_warm \<and> argmax_axis0 scores_cold = Inr am_cold \<and>
           fst (run_winter st ml scores_warm scores_cold scan_type ret) = Inr r \<and>
           length (winter_hca_of r) = length (st (fh ml)) \<and>
           (\<forall>i < length (st (fh ml)).
              (let adjusted = snd (run_winter st ml scores_warm scores_cold scan_type ret) (fh ml);
                   regime = snd (run_winter st ml scores_warm scores_cold scan_type ret) (meltlev ml)
               in winter_hca_of r ! i =
                    blend_spec (adjusted ! i) (regime ! i) (warm_remap am_warm ! i)
                      (int (am_cold ! i) + 1) scan_type \<and>
                  (adjusted ! i = 0 \<or> adjusted ! i = - 1 \<longrightarrow> winter_hca_of r ! i = - 1)))"
proof -
  obtain am_warm am_cold where
    aw: "argmax_axis0 scores_warm = Inr am_warm" and ac: "argmax_axis0 scores_cold = Inr am_cold"
    and lac: "length am_cold = length (st (fh ml))"
    and rw: "run_winter st ml scores_warm scores_cold scan_type ret =
             (let st' = st (fh ml := map (\<lambda>v. if v = 2 then 5 else v) (st (fh ml)));
                  fhwarm = warm_remap am_warm;
                  fhcold = map (\<lambda>k. int k + 1) am_cold;
                  winter_hca = map (\<lambda>i. blend_spec (st' (fh ml) ! i) (st' (meltlev ml) ! i)
                                          (fhwarm ! i) (fhcold ! i) scan_type)
                                 [0 ..< length (st (fh ml))]
              in if ret
                 then (Inr (Hca_Scores winter_hca
                         \<lparr>ML_scores = scores_ML ml, warm_scores = scores_warm,
                          cold_scores = scores_cold\<rparr>
                         \<lparr>ML_hca = fh ml, warm_hca = fhwarm, cold_hca = fhcold\<rparr>), st')
                 else (Inr (Hca winter_hca), st'))"
    using run_winter_ok [OF assms, of scan_type ret] by blast
  show ?thesis
    unfolding rw Let_def using aw ac lac
    by (cases ret) (auto simp add: blend_spec_def)
qed

theorem C3_no_data_wins_witness:
  "wf_winter example_store example_melt example_warm example_cold \<and>
   (\<exists>r. fst (run_winter example_store example_melt example_warm example_cold ''ppi'' True) = Inr r \<and>
        snd (run_winter example_store example_melt example_warm example_cold ''ppi'' True)
          (fh example_melt) ! 0 = 0 \<and>
        winter_hca_of r ! 0 = - 1)"
proof -
  have len: "(0::nat) < length (example_store (fh example_melt))"
    by (simp add: example_store_def example_melt_def)
  have adj: "snd (run_winter example_store example_melt example_warm example_cold ''ppi'' True)
          (fh example_melt) ! 0 = 0"
    unfolding example_run by (simp add: example_melt_def)
  obtain r where
    r: "fst (run_winter example_store example_melt example_warm example_cold ''ppi'' True) = Inr r"
    and all: "\<forall>i < length (example_store (fh example_melt)).
      (let adjusted = snd (run_winter example_store example_melt example_warm example_cold ''ppi'' True) (fh example_melt)
       in adjusted ! i = 0 \<or> adjusted ! i = - 1 \<longrightarrow> winter_hca_of r ! i = - 1)"
    using C3_no_data_wins [OF example_wf, of "''ppi''" True] unfolding Let_def by blast
  from all len adj have "winter_hca_of r ! 0 = - 1" unfolding Let_def by blast
  with r adj example_wf show ?thesis by blast
qed

text \<open>
  C4: at every bin where the melting-layer category is 2 (wet snow) and the regime mask
  is 2 (cold), \<open>run_winter\<close> returns the final category 5, whatever the cold-regime
  arg-max is there.
\<close>

theorem C4_wet_snow_over_cold:
  assumes "wf_winter st ml scores_warm scores_cold"
    and "i < length (st (fh ml))"
    and "st (fh ml) ! i = 2"
    and "st (meltlev ml) ! i = 2"
  shows "\<exists>r. fst (run_winter st ml scores_warm scores_cold scan_type ret) = Inr r \<and>
             winter_hca_of r ! i = 5"
proof -
  obtain am_warm am_cold where
    rw: "run_winter st ml scores_warm scores_cold scan_type ret =
             (let st' = st (fh ml := map (\<lambda>v. if v = 2 then 5 else v) (st (fh ml)));
                  fhwarm = warm_remap am_warm;
                  fhcold = map (\<lambda>k. int k + 1) am_cold;
                  winter_hca = map (\<lambda>i. blend_spec (st' (fh ml) ! i) (st' (meltlev ml) ! i)
                                          (fhwarm ! i) (fhcold ! i) scan_type)
                                 [0 ..< length (st (fh ml))]
              in if ret
                 then (Inr (Hca_Scores winter_hca
                         \<lparr>ML_scores = scores_ML ml, warm_scores = scores_warm,
                          cold_scores = scores_cold\<rparr>
                         \<lparr>ML_hca = fh ml, warm_hca = fhwarm, cold_hca = fhcold\<rparr>), st')
                 else (Inr (Hca winter_hca), st'))"
    using run_winter_ok [OF assms(1), of scan_type ret] by blast
  show ?thesis
    unfolding rw Let_def using assms(2,3)
    by (cases ret) (simp_all add: blend_spec_def)
qed

theorem C4_wet_snow_over_cold_witness:
  "wf_winter example_store example_melt example_warm example_cold \<and>
   (2::nat) < length (example_store (fh example_melt)) \<and>
   example_store (fh example_melt) ! 2 = 2 \<and>
   example_store (meltlev example_melt) ! 2 = 2 \<and>
   (\<exists>r. fst (run_winter example_store example_melt example_warm example_cold ''ppi'' False) = Inr r \<and>
        winter_hca_of r ! 2 = 5)"
proof -
  have a: "(2::nat) < length (example_store (fh example_melt))"
    by (simp add: example_store_def example_melt_def)
  have b: "example_store (fh example_melt) ! 2 = 2"
    by (simp add: example_store_def example_melt_def)
  have c: "example_store (meltlev example_melt) ! 2 = 2"
    by (simp add: example_store_def example_melt_def)
  show ?thesis
    using example_wf a b c C4_wet_snow_over_cold [OF example_wf a b c, of "''ppi''" False]
    by blast
qed

text \<open>
  C5, as stated: the remap of melt category 2 to 5 is made on a working copy, the array
  that the melting-layer partitioner produced is left unchanged, and the returned
  \<open>'ML'\<close> categorization still holds 2 at wet-snow bins. The source assigns
  \<open>fh[whgd] = 5\<close> to the partitioner's array itself: on the melt categorization
  \<open>[0, 1, 2]\<close> the array holds \<open>[0, 1, 5]\<close> afterwards, and \<open>hca['ML']\<close> is that array.
\<close>

theorem C5_working_copy_counterexample:
  "example_store (fh example_melt) = [0, 1, 2] \<and>
   fst (run_winter example_store example_melt example_warm example_cold ''ppi'' True) =
     Inr (Hca_Scores [- 1, 2, 5]
        \<lparr>ML_scores = (), warm_scores = example_warm, cold_scores = example_cold\<rparr>
        \<lparr>ML_hca = fh example_melt, warm_hca = [7, 6, 6], cold_hca = [3, 2, 1]\<rparr>) \<and>
   snd (run_winter example_store example_melt example_warm example_cold ''ppi'' True)
     (fh example_melt) = [0, 1, 5]"
  unfolding example_run by (simp add: example_store_def example_melt_def)

text \<open>
  C5, amended: the wet-snow remap is made in place on the melt category array that the
  melting-layer partitioner returned, no copy is taken: when \<open>run_winter\<close> returns, that
  array holds 5 wherever it held 2 and is otherwise unchanged, as is every other array;
  with \<open>return_scores\<close> the returned \<open>'ML'\<close> categorization is that same array, so it
  holds 5, not 2, at the wet-snow bins.
\<close>

theorem C5_remap_in_place:
  assumes "fst (run_winter st ml scores_warm scores_cold scan_type ret) = Inr r"
  shows "snd (run_winter st ml scores_warm scores_cold scan_type ret) =
           st (fh ml := map (\<lambda>v. if v = 2 then 5 else v) (st (fh ml))) \<and>
         (ret \<longrightarrow>
            (case r of
               Hca w \<Rightarrow> False
             | Hca_Scores w sc h \<Rightarrow>
                 ML_hca h = fh ml \<and>
                 (\<forall>i < length (st (fh ml)). st (fh ml) ! i = 2 \<longrightarrow>
                    snd (run_winter st ml scores_warm scores_cold scan_type ret)
                      (ML_hca h) ! i = 5)))"
proof -
  note s = run_winter_store [OF assms]
  have "case r of
               Hca w \<Rightarrow> False
             | Hca_Scores w sc h \<Rightarrow>
                 ML_hca h = fh ml \<and>
                 (\<forall>i < length (st (fh ml)). st (fh ml) ! i = 2 \<longrightarrow>
                    snd (run_winter st ml scores_warm scores_cold scan_type ret)
                      (ML_hca h) ! i = 5)" if rs: ret
  proof -
    from assms rs
    have "fst (run_winter st ml scores_warm scores_cold scan_type True) = Inr r" by simp
    then have "case r of Hca w \<Rightarrow> False | Hca_Scores w sc h \<Rightarrow> ML_hca h = fh ml"
      by (rule run_winter_ML)
    then show ?thesis unfolding s by (cases r) simp_all
  qed
  with s show ?thesis by blast
qed

theorem C5_remap_in_place_witness:
  "fst (run_winter example_store example_melt example_warm example_cold ''ppi'' True) =
     Inr (Hca_Scores [- 1, 2, 5]
        \<lparr>ML_scores = (), warm_scores = example_warm, cold_scores = example_cold\<rparr>
        \<lparr>ML_hca = 1, warm_hca = [7, 6, 6], cold_hca = [3, 2, 1]\<rparr>) \<and>
   snd (run_winter example_store example_melt example_warm example_cold ''ppi'' True) =
     example_store (1 := [0, 1, 5])"
proof -
  have r: "fst (run_winter example_store example_melt example_warm example_cold ''ppi'' True) =
     Inr (Hca_Scores [- 1, 2, 5]
        \<lparr>ML_scores = (), warm_scores = example_warm, cold_scores = example_cold\<rparr>
        \<lparr>ML_hca = 1, warm_hca = [7, 6, 6], cold_hca = [3, 2, 1]\<rparr>)"
    by (simp add: example_run)
  have "example_store (fh example_melt := map (\<lambda>v. if v = 2 then 5 else v)
          (example_store (fh example_melt))) = example_store (1 := [0, 1, 5])"
    by (simp add: example_store_def example_melt_def)
  then show ?thesis using r C5_remap_in_place [OF r] by simp
qed

end

